theory Spec2Isabelle
  imports Main "HOL-Library.AList"
begin

section \<open>Python values and strings\<close>

text \<open>
  The functions of the standard library are modelled as CPython 3.11 has them on POSIX.
  A Python \<open>str\<close> is a \<open>string\<close> (one \<open>char\<close> per character; the model covers text whose
  characters are below 256). A value read from or written to the settings file is a JSON
  value; a JSON object keeps its keys in insertion order, as a Python \<open>dict\<close> does, so it is
  an association list read with \<open>map_of\<close>.
\<close>

datatype json =
    JNull
  | JBool bool
  | JNum int
  | JStr string
  | JArr "json list"
  | JObj "(string \<times> json) list"

text \<open>
  Exceptions, raised by the program or by the libraries it calls. \<open>OSError\<close> carries its
  message, which the program prints; \<open>IOError\<close> is the same class. \<open>UnicodeDecodeError\<close> is
  a \<open>ValueError\<close> and is neither a \<open>JSONDecodeError\<close> nor an \<open>OSError\<close>.
\<close>

datatype exn =
    KeyError string
  | TypeError
  | AttributeError
  | EOFError
  | OSError string
  | ValueError
  | UnicodeDecodeError
  | RecursionError
  | RuntimeError

text \<open>\<open>except OSError as e\<close>: the message of the exception when the clause catches it.\<close>

fun except_OSError :: "exn \<Rightarrow> string option" where
  "except_OSError (OSError msg) = Some msg"
| "except_OSError e = None"

text \<open>\<open>s.startswith(p)\<close>\<close>

fun startswith :: "string \<Rightarrow> string \<Rightarrow> bool" where
  "startswith s [] = True"
| "startswith [] (p # ps) = False"
| "startswith (c # cs) (p # ps) = (c = p \<and> startswith cs ps)"

text \<open>\<open>sub in s\<close> for two strings: \<open>sub\<close> occurs in \<open>s\<close> at some position.\<close>

fun str_in :: "string \<Rightarrow> string \<Rightarrow> bool" where
  "str_in sub [] = (sub = [])"
| "str_in sub (c # cs) = (startswith (c # cs) sub \<or> str_in sub cs)"

text \<open>\<open>s.lower()\<close>, character by character: A-Z and the upper-case letters of Latin-1.\<close>

definition lower_char :: "char \<Rightarrow> char" where
  "lower_char c =
     (let n = (of_char c :: nat)
      in if (65 \<le> n \<and> n \<le> 90) \<or> (192 \<le> n \<and> n \<le> 222 \<and> n \<noteq> 215)
         then char_of (n + 32) else c)"

definition lower :: "string \<Rightarrow> string" where
  "lower s = map lower_char s"

text \<open>\<open>s.strip()\<close>: white space is removed at both ends.\<close>

definition isspace :: "char \<Rightarrow> bool" where
  "isspace c = ((of_char c :: nat) \<in> {9, 10, 11, 12, 13, 28, 29, 30, 31, 32, 133, 160})"

definition strip :: "string \<Rightarrow> string" where
  "strip s = rev (dropWhile isspace (rev (dropWhile isspace s)))"

subsection \<open>Subscripting and dictionary methods on a value\<close>

text \<open>\<open>obj[k]\<close> with a string \<open>k\<close>: a missing key raises KeyError, and a value that is not
  a dictionary raises TypeError.\<close>

fun subscript :: "json \<Rightarrow> string \<Rightarrow> exn + json" where
  "subscript (JObj kvs) k = (case map_of kvs k of None \<Rightarrow> Inl (KeyError k) | Some v \<Rightarrow> Inr v)"
| "subscript _ k = Inl TypeError"

text \<open>\<open>obj.get(k, d)\<close>\<close>

fun dict_get :: "json \<Rightarrow> string \<Rightarrow> json \<Rightarrow> exn + json" where
  "dict_get (JObj kvs) k d = Inr (case map_of kvs k of None \<Rightarrow> d | Some v \<Rightarrow> v)"
| "dict_get _ k d = Inl AttributeError"

text \<open>\<open>obj[k] = v\<close>: an existing key keeps its place, a new key goes last.\<close>

fun setitem :: "json \<Rightarrow> string \<Rightarrow> json \<Rightarrow> exn + json" where
  "setitem (JObj kvs) k v = Inr (JObj (AList.update k v kvs))"
| "setitem _ k v = Inl TypeError"

text \<open>\<open>obj.items()\<close>\<close>

fun items :: "json \<Rightarrow> exn + (string \<times> json) list" where
  "items (JObj kvs) = Inr kvs"
| "items _ = Inl AttributeError"

section \<open>The environment\<close>

text \<open>
  The settings file, by what \<^verbatim>\<open>with open(self.config_file, 'r') as f: json.load(f)\<close> does
  on it:
  \<^item> \<open>Document v\<close> is what \<open>json.dump\<close> writes for \<open>v\<close> and any text that \<open>json.load\<close> reads
    as \<open>v\<close>;
  \<^item> \<open>Malformed t\<close> is a text \<open>t\<close> that \<open>json.load\<close> rejects with JSONDecodeError;
  \<^item> \<open>NotText\<close> is a file whose bytes are not text in the encoding of \<open>open\<close> (the byte
    \<open>0xFF\<close> under UTF-8): reading raises UnicodeDecodeError;
  \<^item> \<open>HugeInteger\<close> is a text with an integer of more digits than \<open>int\<close> converts (5001
    digits): \<open>json.load\<close> raises ValueError;
  \<^item> \<open>TooDeep\<close> is a text nested deeper than the recursion limit: \<open>json.load\<close> raises
    RecursionError.
\<close>

datatype file_content =
    Malformed string
  | Document json
  | NotText
  | HugeInteger
  | TooDeep

text \<open>
  What \<^verbatim>\<open>with open(self.config_file, 'w') as f: json.dump(config, f, indent=2)\<close> can do:
  succeed, fail with IOError in \<open>open\<close> (the file is untouched), or fail with IOError
  after the file was opened (the file is left with the given contents).
\<close>

datatype write_result = WriteOk | OpenFails string | DumpFails file_content string

text \<open>The options \<open>download\<close> builds for \<open>yt_dlp.YoutubeDL\<close>.\<close>

record postprocessor =
  key :: string
  preferredcodec :: string
  preferredquality :: json

record ydl_opts =
  format :: string
  outtmpl :: string
  postprocessors :: "postprocessor list"
  extractaudio :: bool
  audioformat :: string
  keepvideo :: json

text \<open>\<open>Quiet\<close> is the dictionary \<^verbatim>\<open>{'quiet': True}\<close> of \<open>get_video_info\<close>.\<close>

datatype ydl_params = Quiet | Options ydl_opts

text \<open>
  What the program does to the outside, in order. \<open>PrintF a v b\<close> is
  \<^verbatim>\<open>print(f"{a}{v}{b}")\<close> for a value \<open>v\<close>; \<open>YoutubeDL\<close>, \<open>ExtractInfo\<close> and \<open>Download\<close> are
  the calls to the external media-download library.
\<close>

datatype event =
    Print string
  | PrintF string json string
  | Input string
  | MakeDirs string
  | YoutubeDL ydl_params
  | ExtractInfo string
  | Download "string list"

text \<open>
  Everything the program asks of the operating system and of the libraries is a field of
  the world: the environment variable HOME and the password database (for
  \<open>os.path.expanduser\<close> and \<open>Path.home\<close>), what \<open>os.path.exists\<close> and \<open>os.path.isdir\<close> find
  on a path without a NUL character, the OSError of \<open>os.makedirs\<close> if it raises one (its
  second argument is \<open>exist_ok\<close>), the OSError of \<open>Path.exists\<close> on the settings file if it
  raises one (it does when the directory of the file cannot be searched), the IOError of
  opening the settings file for reading if it raises one, the message of a
  JSONDecodeError, the outcome of writing the settings file, and the three calls to
  \<open>yt_dlp\<close> (\<open>Some msg\<close> or \<open>Inl msg\<close> is an Exception with that message). Standard output
  takes every text: \<open>print\<close> does not raise.
\<close>

record world =
  env_HOME :: "string option"
  getpwuid_dir :: "string option"
  getpwnam_dir :: "string \<Rightarrow> string option"
  path_exists :: "string \<Rightarrow> bool"
  path_isdir :: "string \<Rightarrow> bool"
  makedirs :: "string \<Rightarrow> bool \<Rightarrow> string option"
  exists_error :: "string option"
  open_read :: "string option"
  decode_error :: "string \<Rightarrow> string"
  open_write :: "json \<Rightarrow> write_result"
  ydl_new :: "ydl_params \<Rightarrow> string option"
  ydl_extract_info :: "string \<Rightarrow> string + (string \<times> json) list"
  ydl_download :: "ydl_opts \<Rightarrow> string list \<Rightarrow> string option"

text \<open>
  The mutable state: \<open>self.config\<close> of the ConfigManager, the settings file on disk
  (\<open>None\<close>: no such file) and the lines still to be read from standard input.
\<close>

record state =
  config :: json
  disk :: "file_content option"
  stdin :: "string list"

section \<open>os.path (POSIX)\<close>

text \<open>\<open>userhome.rstrip('/')\<close>\<close>

definition rstrip_sep :: "string \<Rightarrow> string" where
  "rstrip_sep s = rev (dropWhile (\<lambda>c. c = CHR ''/'') (rev s))"

text \<open>
  \<open>posixpath.expanduser\<close>: a path that does not start with \<open>~\<close> is returned as it is. In
  \<open>~name/tail\<close> the home directory is HOME (or the password database's entry of the
  current user) when \<open>name\<close> is empty and the entry of \<open>name\<close> otherwise; when there is
  none the path is returned as it is. \<open>pwd.getpwnam\<close> raises ValueError on a name with a
  NUL character, and \<open>expanduser\<close> catches KeyError only.
\<close>

definition expanduser :: "world \<Rightarrow> string \<Rightarrow> exn + string" where
  "expanduser w path =
     (if \<not> startswith path ''~'' then Inr path
      else
        let name = takeWhile (\<lambda>c. c \<noteq> CHR ''/'') (tl path);
            tail = dropWhile (\<lambda>c. c \<noteq> CHR ''/'') (tl path)
        in if name \<noteq> [] \<and> CHR 0x00 \<in> set name then Inl ValueError
           else
             case (if name = [] then
                     (case env_HOME w of None \<Rightarrow> getpwuid_dir w | Some h \<Rightarrow> Some h)
                   else getpwnam_dir w name) of
               None \<Rightarrow> Inr path
             | Some h \<Rightarrow>
                 Inr (if rstrip_sep h @ tail = [] then ''/'' else rstrip_sep h @ tail))"

text \<open>
  \<open>os.path.exists\<close> and \<open>os.path.isdir\<close> return \<open>False\<close> when \<open>os.stat\<close> raises OSError or
  ValueError, as it does on a path with a NUL character.
\<close>

definition os_path_exists :: "world \<Rightarrow> string \<Rightarrow> bool" where
  "os_path_exists w p = (CHR 0x00 \<notin> set p \<and> path_exists w p)"

definition os_path_isdir :: "world \<Rightarrow> string \<Rightarrow> bool" where
  "os_path_isdir w p = (CHR 0x00 \<notin> set p \<and> path_isdir w p)"

text \<open>
  \<open>os.makedirs(p, exist_ok)\<close>: \<open>None\<close> when it returns, the exception otherwise. It raises
  the OSError of the world if there is one; on a path with a NUL character it never
  returns: where no OSError comes first, \<open>os.mkdir\<close> raises ValueError.
\<close>

definition os_makedirs :: "world \<Rightarrow> string \<Rightarrow> bool \<Rightarrow> exn option" where
  "os_makedirs w p exist_ok =
     (case makedirs w p exist_ok of
        Some msg \<Rightarrow> Some (OSError msg)
      | None \<Rightarrow> (if CHR 0x00 \<in> set p then Some ValueError else None))"

text \<open>\<open>posixpath.join(a, b)\<close>\<close>

definition os_path_join :: "string \<Rightarrow> string \<Rightarrow> string" where
  "os_path_join a b =
     (if startswith b ''/'' then b
      else if a = [] \<or> last a = CHR ''/'' then a @ b
      else a @ ''/'' @ b)"

text \<open>\<open>posixpath.basename(p)\<close>: what follows the last slash.\<close>

definition basename :: "string \<Rightarrow> string" where
  "basename p = rev (takeWhile (\<lambda>c. c \<noteq> CHR ''/'') (rev p))"


section \<open>pathlib (POSIX)\<close>

text \<open>\<open>s.split('/')\<close>\<close>

fun split_sep :: "string \<Rightarrow> string list" where
  "split_sep [] = [[]]"
| "split_sep (c # cs) =
     (if c = CHR ''/'' then [] # split_sep cs
      else (case split_sep cs of [] \<Rightarrow> [[c]] | x # xs \<Rightarrow> (c # x) # xs))"

text \<open>\<open>'/'.join(xs)\<close>\<close>

fun join_sep :: "string list \<Rightarrow> string" where
  "join_sep [] = []"
| "join_sep [x] = x"
| "join_sep (x # y # ys) = x @ ''/'' @ join_sep (y # ys)"

text \<open>
  A \<open>PurePosixPath\<close>: its root (empty, \<open>/\<close> or \<open>//\<close>) and its components. Parsing a string
  takes the root off (exactly two leading slashes are the root \<open>//\<close>, any other number is
  \<open>/\<close>) and drops the empty components and the components \<open>.\<close>.
\<close>

record pure_path =
  root :: string
  names :: "string list"

definition splitroot :: "string \<Rightarrow> string \<times> string" where
  "splitroot part =
     (let stripped = dropWhile (\<lambda>c. c = CHR ''/'') part
      in if startswith part ''/''
         then (if length part - length stripped = 2 then ''//'' else ''/'', stripped)
         else ([], part))"

definition Path :: "string \<Rightarrow> pure_path" where
  "Path part =
     (case splitroot part of
        (r, rel) \<Rightarrow> \<lparr>root = r, names = filter (\<lambda>x. x \<noteq> [] \<and> x \<noteq> ''.'') (split_sep rel)\<rparr>)"

text \<open>\<open>p / arg\<close>: an argument with a root replaces the path.\<close>

definition truediv :: "pure_path \<Rightarrow> string \<Rightarrow> pure_path" where
  "truediv p arg =
     (if root (Path arg) \<noteq> [] then Path arg
      else \<lparr>root = root p, names = names p @ names (Path arg)\<rparr>)"

text \<open>\<open>str(p)\<close>\<close>

definition path_str :: "pure_path \<Rightarrow> string" where
  "path_str p = (if root p @ join_sep (names p) = [] then ''.'' else root p @ join_sep (names p))"

text \<open>
  \<open>Path.home()\<close> is \<open>Path("~").expanduser()\<close>: the path of \<open>os.path.expanduser("~")\<close>, and
  RuntimeError when that still starts with \<open>~\<close>.
\<close>

definition Path_home :: "world \<Rightarrow> exn + pure_path" where
  "Path_home w =
     (case expanduser w ''~'' of
        Inl e \<Rightarrow> Inl e
      | Inr homedir \<Rightarrow> (if startswith homedir ''~'' then Inl RuntimeError else Inr (Path homedir)))"

section \<open>config.py: ConfigManager\<close>

text \<open>
  \<^verbatim>\<open>
  def get_default_config(self):
      downloads_path = str(Path.home() / "Downloads")
      return {"download_path": downloads_path, "audio_quality": "192",
              "filename_format": "%(title)s.%(ext)s", "keep_video": False}
  \<close>
\<close>

definition get_default_config :: "world \<Rightarrow> exn + json" where
  "get_default_config w =
     (case Path_home w of
        Inl e \<Rightarrow> Inl e
      | Inr home \<Rightarrow>
          Inr (JObj [(''download_path'', JStr (path_str (truediv home ''Downloads''))),
                     (''audio_quality'', JStr ''192''),
                     (''filename_format'', JStr ''%(title)s.%(ext)s''),
                     (''keep_video'', JBool False)]))"

text \<open>
  \<^verbatim>\<open>
  def save_config(self, config=None):
      if config is None:
          config = self.config
      try:
          with open(self.config_file, 'w') as f:
              json.dump(config, f, indent=2)
          self.config = config
      except IOError as e:
          print(f"Error saving config: {e}")
  \<close>
\<close>

definition save_config :: "world \<Rightarrow> json option \<Rightarrow> state \<Rightarrow> state \<times> event list" where
  "save_config w arg s =
     (let cfg = (case arg of None \<Rightarrow> config s | Some c \<Rightarrow> c)
      in case open_write w cfg of
           WriteOk \<Rightarrow> (s\<lparr>disk := Some (Document cfg), config := cfg\<rparr>, [])
         | OpenFails msg \<Rightarrow> (s, [Print (''Error saving config: '' @ msg)])
         | DumpFails left msg \<Rightarrow>
             (s\<lparr>disk := Some left\<rparr>, [Print (''Error saving config: '' @ msg)]))"

text \<open>
  \<^verbatim>\<open>
  def load_config(self):
      if not self.config_file.exists():
          config = self.get_default_config()
          self.save_config(config)
          return config
      try:
          with open(self.config_file, 'r') as f:
              return json.load(f)
      except (json.JSONDecodeError, IOError) as e:
          print(f"Error loading config: {e}")
          print("Using default configuration...")
          return self.get_default_config()
  \<close>
  The result is the returned value, or the exception that leaves \<open>load_config\<close>, the
  state afterwards and the output. The \<open>except\<close> clause catches JSONDecodeError and
  IOError; the other exceptions of reading leave \<open>load_config\<close>, and so do an exception
  of \<open>get_default_config\<close> and an OSError of \<open>self.config_file.exists()\<close>, which is
  outside the \<open>try\<close>.
\<close>

definition load_config :: "world \<Rightarrow> state \<Rightarrow> (exn + json) \<times> state \<times> event list" where
  "load_config w s =
     (case exists_error w of
        Some msg \<Rightarrow> (Inl (OSError msg), s, [])
      | None \<Rightarrow>
          (case disk s of
             None \<Rightarrow>
               (case get_default_config w of
                  Inl e \<Rightarrow> (Inl e, s, [])
                | Inr cfg \<Rightarrow> (let (s', ev) = save_config w (Some cfg) s in (Inr cfg, s', ev)))
           | Some content \<Rightarrow>
               (case open_read w of
                  Some msg \<Rightarrow>
                    (get_default_config w, s,
                     [Print (''Error loading config: '' @ msg),
                      Print ''Using default configuration...''])
                | None \<Rightarrow>
                    (case content of
                       Malformed t \<Rightarrow>
                         (get_default_config w, s,
                          [Print (''Error loading config: '' @ decode_error w t),
                           Print ''Using default configuration...''])
                     | Document v \<Rightarrow> (Inr v, s, [])
                     | NotText \<Rightarrow> (Inl UnicodeDecodeError, s, [])
                     | HugeInteger \<Rightarrow> (Inl ValueError, s, [])
                     | TooDeep \<Rightarrow> (Inl RecursionError, s, [])))))"

text \<open>
  \<^verbatim>\<open>
  def __init__(self, config_file="config.json"):
      self.config_file = Path(config_file)
      self.config = self.load_config()
  \<close>
  \<open>load_config\<close> runs before \<open>self.config\<close> is assigned and never reads it; \<open>JNull\<close> stands
  for the attribute that does not exist yet. An exception of \<open>load_config\<close> leaves the
  constructor.
\<close>

definition ConfigManager ::
  "world \<Rightarrow> file_content option \<Rightarrow> string list \<Rightarrow> (exn + unit) \<times> state \<times> event list" where
  "ConfigManager w d inp =
     (case load_config w \<lparr>config = JNull, disk = d, stdin = inp\<rparr> of
        (Inl e, s, ev) \<Rightarrow> (Inl e, s, ev)
      | (Inr cfg, s, ev) \<Rightarrow> (Inr (), s\<lparr>config := cfg\<rparr>, ev))"

text \<open>
  \<^verbatim>\<open>
  def update_setting(self, key, value):
      self.config[key] = value
      self.save_config()
  \<close>
\<close>

definition update_setting :: "world \<Rightarrow> string \<Rightarrow> json \<Rightarrow> state \<Rightarrow> (exn + unit) \<times> state \<times> event list" where
  "update_setting w k v s =
     (case setitem (config s) k v of
        Inl e \<Rightarrow> (Inl e, s, [])
      | Inr c \<Rightarrow> (let (s', ev) = save_config w None (s\<lparr>config := c\<rparr>) in (Inr (), s', ev)))"

text \<open>
  \<^verbatim>\<open>
  def get_download_path(self):
      return os.path.expanduser(self.config["download_path"])
  \<close>
  \<open>os.path.expanduser\<close> raises TypeError on a value that is not a string.
\<close>

definition get_download_path :: "world \<Rightarrow> json \<Rightarrow> exn + string" where
  "get_download_path w cfg =
     (case subscript cfg ''download_path'' of
        Inl e \<Rightarrow> Inl e
      | Inr (JStr p) \<Rightarrow> expanduser w p
      | Inr _ \<Rightarrow> Inl TypeError)"

text \<open>
  \<^verbatim>\<open>
  def show_config(self):
      print("Current configuration:")
      for key, value in self.config.items():
          print(f"  {key}: {value}")
  \<close>
\<close>

definition show_config :: "json \<Rightarrow> (exn + unit) \<times> event list" where
  "show_config cfg =
     (case items cfg of
        Inl e \<Rightarrow> (Inl e, [Print ''Current configuration:''])
      | Inr kvs \<Rightarrow>
          (Inr (), Print ''Current configuration:'' #
                   map (\<lambda>(k, v). PrintF (''  '' @ k @ '': '') v []) kvs))"

section \<open>downloader.py: URL validation\<close>

text \<open>
  \<^verbatim>\<open>def validate_url(self, url): return "youtube.com" in url or "youtu.be" in url\<close>
\<close>

definition validate_url :: "string \<Rightarrow> bool" where
  "validate_url url = (str_in ''youtube.com'' url \<or> str_in ''youtu.be'' url)"

text \<open>
  \<^verbatim>\<open>
  def get_video_info(self, url):
      try:
          ydl_opts = {'quiet': True}
          with yt_dlp.YoutubeDL(ydl_opts) as ydl:
              info = ydl.extract_info(url, download=False)
              return {'title': info.get('title', 'Unknown'),
                      'duration': info.get('duration', 0),
                      'uploader': info.get('uploader', 'Unknown')}
      except Exception as e:
          print(f"Error getting video info: {e}")
          return None
  \<close>
\<close>

record video_info =
  title :: json
  duration :: json
  uploader :: json

definition get_video_info :: "world \<Rightarrow> string \<Rightarrow> video_info option \<times> event list" where
  "get_video_info w url =
     (case ydl_new w Quiet of
        Some msg \<Rightarrow> (None, [YoutubeDL Quiet, Print (''Error getting video info: '' @ msg)])
      | None \<Rightarrow>
          (case ydl_extract_info w url of
             Inl msg \<Rightarrow>
               (None, [YoutubeDL Quiet, ExtractInfo url,
                       Print (''Error getting video info: '' @ msg)])
           | Inr info \<Rightarrow>
               (Some \<lparr>title = (case map_of info ''title'' of None \<Rightarrow> JStr ''Unknown'' | Some v \<Rightarrow> v),
                      duration = (case map_of info ''duration'' of None \<Rightarrow> JNum 0 | Some v \<Rightarrow> v),
                      uploader = (case map_of info ''uploader'' of None \<Rightarrow> JStr ''Unknown'' | Some v \<Rightarrow> v)\<rparr>,
                [YoutubeDL Quiet, ExtractInfo url])))"

text \<open>
  The dictionary \<open>ydl_opts\<close> of \<open>download\<close> (lines 42 to 53), its entries evaluated in
  order: \<open>self.config.config["filename_format"]\<close>, \<open>os.path.join\<close> (TypeError when the
  format is not a string), \<open>self.config.config["audio_quality"]\<close>, and
  \<open>self.config.config.get("keep_video", False)\<close>.
\<close>

definition make_ydl_opts :: "json \<Rightarrow> string \<Rightarrow> exn + ydl_opts" where
  "make_ydl_opts cfg download_path =
     (case subscript cfg ''filename_format'' of
        Inl e \<Rightarrow> Inl e
      | Inr (JStr fmt) \<Rightarrow>
          (case subscript cfg ''audio_quality'' of
             Inl e \<Rightarrow> Inl e
           | Inr quality \<Rightarrow>
               (case dict_get cfg ''keep_video'' (JBool False) of
                  Inl e \<Rightarrow> Inl e
                | Inr keep \<Rightarrow>
                    Inr \<lparr>format = ''bestaudio[ext=m4a]/bestaudio[ext=webm]/bestaudio/best[height<=480]'',
                         outtmpl = os_path_join download_path fmt,
                         postprocessors =
                           [\<lparr>key = ''FFmpegExtractAudio'',
                             preferredcodec = ''mp3'',
                             preferredquality = quality\<rparr>],
                         extractaudio = True,
                         audioformat = ''mp3'',
                         keepvideo = keep\<rparr>))
      | Inr _ \<Rightarrow> Inl TypeError)"

text \<open>
  \<^verbatim>\<open>
  def download(self, url):
      if not self.validate_url(url):
          print("Error: Invalid YouTube URL")
          return False
      download_path = self.config.get_download_path()
      if not os.path.exists(download_path):
          try:
              os.makedirs(download_path)
          except OSError as e:
              print(f"Error creating download directory: {e}")
              return False
      ydl_opts = { ... }
      try:
          with yt_dlp.YoutubeDL(ydl_opts) as ydl:
              print(f"Downloading to: {download_path}")
              ydl.download([url])
              print("Download completed successfully!")
              return True
      except Exception as e:
          print(f"Error downloading video: {e}")
          return False
  \<close>
  The result is the returned boolean, or the exception that leaves \<open>download\<close>, and what
  \<open>download\<close> did to the outside. The first \<open>try\<close> catches OSError only; the second catches
  every Exception.
\<close>

definition download :: "world \<Rightarrow> json \<Rightarrow> string \<Rightarrow> (exn + bool) \<times> event list" where
  "download w cfg url =
     (if \<not> validate_url url then (Inr False, [Print ''Error: Invalid YouTube URL''])
      else
        case get_download_path w cfg of
          Inl e \<Rightarrow> (Inl e, [])
        | Inr download_path \<Rightarrow>
            let created =
                  (if os_path_exists w download_path then [] else [MakeDirs download_path])
            in case (if os_path_exists w download_path then None
                     else os_makedirs w download_path False) of
                 Some e \<Rightarrow>
                   (case except_OSError e of
                      Some msg \<Rightarrow>
                        (Inr False,
                         created @ [Print (''Error creating download directory: '' @ msg)])
                    | None \<Rightarrow> (Inl e, created))
               | None \<Rightarrow>
                   (case make_ydl_opts cfg download_path of
                      Inl e \<Rightarrow> (Inl e, created)
                    | Inr opts \<Rightarrow>
                        (case ydl_new w (Options opts) of
                           Some msg \<Rightarrow>
                             (Inr False,
                              created @ [YoutubeDL (Options opts),
                                         Print (''Error downloading video: '' @ msg)])
                         | None \<Rightarrow>
                             (case ydl_download w opts [url] of
                                Some msg \<Rightarrow>
                                  (Inr False,
                                   created @ [YoutubeDL (Options opts),
                                              Print (''Downloading to: '' @ download_path),
                                              Download [url],
                                              Print (''Error downloading video: '' @ msg)])
                              | None \<Rightarrow>
                                  (Inr True,
                                   created @ [YoutubeDL (Options opts),
                                              Print (''Downloading to: '' @ download_path),
                                              Download [url],
                                              Print ''Download completed successfully!''])))))"

section \<open>cli.py: CLI\<close>

text \<open>The namespace \<open>parse_arguments\<close> returns; an option that was not given is \<open>None\<close>
  or \<open>False\<close>.\<close>

record args =
  link :: "string option"
  set_download_path :: "string option"
  show_config_flag :: bool
  keep_video :: bool
  no_keep_video :: bool

text \<open>\<open>input(prompt)\<close>: the next line of standard input, EOFError when there is none.\<close>

definition py_input :: "string \<Rightarrow> state \<Rightarrow> (exn + string) \<times> state \<times> event list" where
  "py_input prompt s =
     (case stdin s of
        [] \<Rightarrow> (Inl EOFError, s, [Input prompt])
      | l # ls \<Rightarrow> (Inr l, s\<lparr>stdin := ls\<rparr>, [Input prompt]))"

text \<open>
  \<open>if x:\<close> for an optional string: \<open>None\<close> and the empty string are false, and a string
  that is not empty is true.
\<close>

fun truthy :: "string option \<Rightarrow> string option" where
  "truthy None = None"
| "truthy (Some s) = (if s = [] then None else Some s)"

text \<open>
  The \<open>--set-download-path\<close> block of \<open>handle_config_commands\<close> (lines 96 to 105):
  \<^verbatim>\<open>
  if args.set_download_path:
      path = os.path.expanduser(args.set_download_path)
      if os.path.isdir(path) or input(f"Directory '{path}' doesn't exist. Create it? (y/n): ").lower() in ['y', 'yes']:
          try:
              os.makedirs(path, exist_ok=True)
              self.config_manager.update_setting("download_path", args.set_download_path)
              print(f"Download path updated to: {path}")
              config_changed = True
          except OSError as e:
              print(f"Error setting download path: {e}")
  \<close>
  The result is \<open>config_changed\<close> after the block. First the prompt:
\<close>

definition create_prompt :: "string \<Rightarrow> string" where
  "create_prompt path =
     ''Directory '' @ [CHR 0x27] @ path @ [CHR 0x27] @ '' doesn'' @ [CHR 0x27] @
     ''t exist. Create it? (y/n): ''"

text \<open>The condition of the inner \<open>if\<close>: \<open>input\<close> is called only when the path is not a
  directory.\<close>

definition confirm_directory :: "world \<Rightarrow> string \<Rightarrow> state \<Rightarrow> (exn + bool) \<times> state \<times> event list" where
  "confirm_directory w path s =
     (if os_path_isdir w path then (Inr True, s, [])
      else
        case py_input (create_prompt path) s of
          (Inl e, s', ev) \<Rightarrow> (Inl e, s', ev)
        | (Inr answer, s', ev) \<Rightarrow> (Inr (lower answer \<in> set [''y'', ''yes'']), s', ev))"

text \<open>The block: \<open>expanduser\<close> is outside the \<open>try\<close>, whose \<open>except\<close> catches OSError only.\<close>

definition set_path_block :: "world \<Rightarrow> string \<Rightarrow> state \<Rightarrow> (exn + bool) \<times> state \<times> event list" where
  "set_path_block w p s =
     (case expanduser w p of
        Inl e \<Rightarrow> (Inl e, s, [])
      | Inr path \<Rightarrow>
          (case confirm_directory w path s of
             (Inl e, s1, ev1) \<Rightarrow> (Inl e, s1, ev1)
           | (Inr False, s1, ev1) \<Rightarrow> (Inr False, s1, ev1)
           | (Inr True, s1, ev1) \<Rightarrow>
               (case os_makedirs w path True of
                  Some e \<Rightarrow>
                    (case except_OSError e of
                       Some msg \<Rightarrow>
                         (Inr False, s1,
                          ev1 @ [MakeDirs path, Print (''Error setting download path: '' @ msg)])
                     | None \<Rightarrow> (Inl e, s1, ev1 @ [MakeDirs path]))
                | None \<Rightarrow>
                    (case update_setting w ''download_path'' (JStr p) s1 of
                       (Inl e, s2, ev2) \<Rightarrow> (Inl e, s2, ev1 @ [MakeDirs path] @ ev2)
                     | (Inr u, s2, ev2) \<Rightarrow>
                         (Inr True, s2,
                          ev1 @ [MakeDirs path] @ ev2 @
                          [Print (''Download path updated to: '' @ path)])))))"

text \<open>
  \<^verbatim>\<open>
  def handle_config_commands(self, args):
      config_changed = False
      if args.show_config:
          self.config_manager.show_config()
          return True
      if args.set_download_path:
          ...
      if args.keep_video:
          self.config_manager.update_setting("keep_video", True)
          print("Video files will now be kept after MP3 conversion")
          config_changed = True
      if args.no_keep_video:
          self.config_manager.update_setting("keep_video", False)
          print("Video files will now be deleted after MP3 conversion (default)")
          config_changed = True
      return config_changed or args.set_download_path is not None
  \<close>
  One flag of the two \<open>keep_video\<close> blocks:
\<close>

definition keep_block ::
  "world \<Rightarrow> bool \<Rightarrow> bool \<Rightarrow> string \<Rightarrow> (bool \<times> state \<times> event list) \<Rightarrow> (exn + bool) \<times> state \<times> event list" where
  "keep_block w flag value msg r =
     (case r of (config_changed, s, ev) \<Rightarrow>
        if flag then
          (case update_setting w ''keep_video'' (JBool value) s of
             (Inl e, s', ev') \<Rightarrow> (Inl e, s', ev @ ev')
           | (Inr u, s', ev') \<Rightarrow> (Inr True, s', ev @ ev' @ [Print msg]))
        else (Inr config_changed, s, ev))"

definition handle_config_commands :: "world \<Rightarrow> args \<Rightarrow> state \<Rightarrow> (exn + bool) \<times> state \<times> event list" where
  "handle_config_commands w a s =
     (if show_config_flag a then
        (case show_config (config s) of
           (Inl e, ev) \<Rightarrow> (Inl e, s, ev)
         | (Inr u, ev) \<Rightarrow> (Inr True, s, ev))
      else
        case (case truthy (set_download_path a) of
                Some p \<Rightarrow> set_path_block w p s
              | None \<Rightarrow> (Inr False, s, [])) of
          (Inl e, s1, ev1) \<Rightarrow> (Inl e, s1, ev1)
        | (Inr c1, s1, ev1) \<Rightarrow>
            (case keep_block w (keep_video a) True
                    ''Video files will now be kept after MP3 conversion'' (c1, s1, ev1) of
               (Inl e, s2, ev2) \<Rightarrow> (Inl e, s2, ev2)
             | (Inr c2, s2, ev2) \<Rightarrow>
                 (case keep_block w (no_keep_video a) False
                         ''Video files will now be deleted after MP3 conversion (default)''
                         (c2, s2, ev2) of
                    (Inl e, s3, ev3) \<Rightarrow> (Inl e, s3, ev3)
                  | (Inr c3, s3, ev3) \<Rightarrow>
                      (Inr (c3 \<or> set_download_path a \<noteq> None), s3, ev3))))"

text \<open>
  \<^verbatim>\<open>
  def interactive_mode(self):
      print("YouTube to MP3 Converter - Interactive Mode")
      print("=" * 40)
      while True:
          url = input("\nEnter YouTube URL (or 'quit' to exit): ").strip()
          if url.lower() in ['quit', 'exit', 'q']:
              print("Goodbye!")
              break
          if not url:
              print("Please enter a valid URL.")
              continue
          info = self.downloader.get_video_info(url)
          if info:
              print(f"\nVideo: {info['title']}")
              print(f"Uploader: {info['uploader']}")
              print(f"Duration: {info['duration']} seconds")
              confirm = input("\nDownload this video? (y/n): ").strip().lower()
              if confirm in ['y', 'yes']:
                  self.downloader.download(url)
              else:
                  print("Download cancelled.")
          else:
              print("Could not retrieve video information. Try downloading anyway? (y/n): ")
              confirm = input().strip().lower()
              if confirm in ['y', 'yes']:
                  self.downloader.download(url)
  \<close>
  The loop is a recursion on the lines of standard input: every round reads at least one
  line, and reading past the last line raises EOFError. The result is the exception that
  leaves the loop, if any, the lines not read and what the loop did to the outside.
\<close>

definition url_prompt :: string where
  "url_prompt = [CHR 0x0A] @ ''Enter YouTube URL (or '' @ [CHR 0x27] @ ''quit'' @ [CHR 0x27] @ '' to exit): ''"

fun interactive_loop :: "world \<Rightarrow> json \<Rightarrow> string list \<Rightarrow> (exn + unit) \<times> string list \<times> event list" where
  "interactive_loop w cfg [] = (Inl EOFError, [], [Input url_prompt])"
| "interactive_loop w cfg (l # ls) =
     (let url = strip l
      in if lower url \<in> set [''quit'', ''exit'', ''q'']
         then (Inr (), ls, [Input url_prompt, Print ''Goodbye!''])
         else if url = []
         then (case interactive_loop w cfg ls of
                 (r, rest, ev) \<Rightarrow>
                   (r, rest, [Input url_prompt, Print ''Please enter a valid URL.''] @ ev))
         else
           (case get_video_info w url of
              (info, evi) \<Rightarrow>
                (let asked =
                       (case info of
                          Some i \<Rightarrow>
                            [PrintF ([CHR 0x0A] @ ''Video: '') (title i) [],
                             PrintF ''Uploader: '' (uploader i) [],
                             PrintF ''Duration: '' (duration i) '' seconds'',
                             Input ([CHR 0x0A] @ ''Download this video? (y/n): '')]
                        | None \<Rightarrow>
                            [Print ''Could not retrieve video information. Try downloading anyway? (y/n): '',
                             Input []])
                 in case ls of
                      [] \<Rightarrow> (Inl EOFError, [], [Input url_prompt] @ evi @ asked)
                    | answer # ls' \<Rightarrow>
                        if lower (strip answer) \<in> set [''y'', ''yes'']
                        then
                          (case download w cfg url of
                             (Inl e, evd) \<Rightarrow> (Inl e, ls', [Input url_prompt] @ evi @ asked @ evd)
                           | (Inr b, evd) \<Rightarrow>
                               (case interactive_loop w cfg ls' of
                                  (r, rest, ev) \<Rightarrow>
                                    (r, rest, [Input url_prompt] @ evi @ asked @ evd @ ev)))
                        else
                          (case interactive_loop w cfg ls' of
                             (r, rest, ev) \<Rightarrow>
                               (r, rest,
                                [Input url_prompt] @ evi @ asked @
                                (if info = None then [] else [Print ''Download cancelled.'']) @ ev)))))"

definition interactive_mode :: "world \<Rightarrow> state \<Rightarrow> (exn + unit) \<times> state \<times> event list" where
  "interactive_mode w s =
     (case interactive_loop w (config s) (stdin s) of
        (r, rest, ev) \<Rightarrow>
          (r, s\<lparr>stdin := rest\<rparr>,
           [Print ''YouTube to MP3 Converter - Interactive Mode'', Print (replicate 40 CHR ''='')] @ ev))"

text \<open>
  \<^verbatim>\<open>
  def run(self):
      args = self.parse_arguments()
      if self.handle_config_commands(args):
          return
      if args.link:
          self.downloader.download(args.link)
      else:
          self.interactive_mode()
  \<close>
  The arguments are taken as parsed.
\<close>

definition run :: "world \<Rightarrow> args \<Rightarrow> state \<Rightarrow> (exn + unit) \<times> state \<times> event list" where
  "run w a s =
     (case handle_config_commands w a s of
        (Inl e, s', ev) \<Rightarrow> (Inl e, s', ev)
      | (Inr True, s', ev) \<Rightarrow> (Inr (), s', ev)
      | (Inr False, s', ev) \<Rightarrow>
          (case truthy (link a) of
             Some url \<Rightarrow>
               (case download w (config s') url of
                  (Inl e, evd) \<Rightarrow> (Inl e, s', ev @ evd)
                | (Inr b, evd) \<Rightarrow> (Inr (), s', ev @ evd))
           | None \<Rightarrow>
               (case interactive_mode w s' of
                  (r, s'', evi) \<Rightarrow> (r, s'', ev @ evi))))"

section \<open>Observing what was done\<close>

text \<open>The calls to the external media-download library among the events.\<close>

fun is_external :: "event \<Rightarrow> bool" where
  "is_external (YoutubeDL ps) = True"
| "is_external (ExtractInfo url) = True"
| "is_external (Download urls) = True"
| "is_external (Print t) = False"
| "is_external (PrintF a v b) = False"
| "is_external (Input prompt) = False"
| "is_external (MakeDirs path) = False"

definition external_calls :: "event list \<Rightarrow> event list" where
  "external_calls evs = filter is_external evs"

text \<open>The directories \<open>os.makedirs\<close> was called on, one entry for each call.\<close>

fun makedirs_calls :: "event list \<Rightarrow> string list" where
  "makedirs_calls [] = []"
| "makedirs_calls (MakeDirs path # evs) = path # makedirs_calls evs"
| "makedirs_calls (e # evs) = makedirs_calls evs"

text \<open>The option sets \<open>yt_dlp.YoutubeDL\<close> was constructed with, one entry for each call.\<close>

fun options_passed :: "event list \<Rightarrow> ydl_opts list" where
  "options_passed [] = []"
| "options_passed (YoutubeDL (Options opts) # evs) = opts # options_passed evs"
| "options_passed (e # evs) = options_passed evs"

section \<open>A concrete world\<close>

text \<open>
  A machine where the home directory is \<open>/home/user\<close>, its Downloads directory exists, no
  other directory does, and every call to the system and to the library succeeds.
\<close>

definition calm_world :: world where
  "calm_world =
     \<lparr>env_HOME = Some ''/home/user'',
      getpwuid_dir = Some ''/home/user'',
      getpwnam_dir = (\<lambda>name. None),
      path_exists = (\<lambda>p. p = ''/home/user/Downloads''),
      path_isdir = (\<lambda>p. p = ''/home/user/Downloads''),
      makedirs = (\<lambda>p exist_ok. None),
      exists_error = None,
      open_read = None,
      decode_error = (\<lambda>t. ''Expecting value: line 1 column 1 (char 0)''),
      open_write = (\<lambda>v. WriteOk),
      ydl_new = (\<lambda>ps. None),
      ydl_extract_info = (\<lambda>url. Inr []),
      ydl_download = (\<lambda>opts urls. None)\<rparr>"

text \<open>The same machine, where no directory can be created and no file written.\<close>

definition denied_world :: world where
  "denied_world =
     calm_world\<lparr>makedirs := (\<lambda>p exist_ok. Some ''[Errno 13] Permission denied''),
                open_write := (\<lambda>v. OpenFails ''[Errno 13] Permission denied'')\<rparr>"

text \<open>Settings with the audio quality and the file name format of the options example.\<close>

definition custom_config :: json where
  "custom_config =
     JObj [(''download_path'', JStr ''~/Music''),
           (''audio_quality'', JStr ''320''),
           (''filename_format'', JStr ''X_%(title)s.%(ext)s'')]"

text \<open>A settings document that parses and has two of the four keys.\<close>

definition partial_config :: json where
  "partial_config =
     JObj [(''download_path'', JStr ''/home/user/Downloads''),
           (''audio_quality'', JStr ''192'')]"

text \<open>The default settings on the calm machine, and the state a first start leaves there:
  the defaults, in memory and on disk.\<close>

definition calm_defaults :: json where
  "calm_defaults =
     JObj [(''download_path'', JStr ''/home/user/Downloads''),
           (''audio_quality'', JStr ''192''),
           (''filename_format'', JStr ''%(title)s.%(ext)s''),
           (''keep_video'', JBool False)]"

definition default_state :: state where
  "default_state =
     \<lparr>config = calm_defaults, disk = Some (Document calm_defaults), stdin = []\<rparr>"

text \<open>The four settings, with a NUL character in the download path, as the settings file
  \<^verbatim>\<open>{"download_path": "/tmp/a\u0000b", ...}\<close> gives them.\<close>

definition nul_config :: json where
  "nul_config =
     JObj [(''download_path'', JStr (''/tmp/a'' @ [CHR 0x00] @ ''b'')),
           (''audio_quality'', JStr ''192''),
           (''filename_format'', JStr ''%(title)s.%(ext)s''),
           (''keep_video'', JBool False)]"

text \<open>The answer at the prompt of \<open>--set-download-path\<close>: the next line of standard input,
  in lower case, is \<open>y\<close> or \<open>yes\<close>.\<close>

fun agrees :: "string list \<Rightarrow> bool" where
  "agrees [] = False"
| "agrees (l # ls) = (lower l \<in> set [''y'', ''yes''])"

text \<open>The command line \<^verbatim>\<open>--link=https://youtu.be/abc --set-download-path=/new\<close>.\<close>

definition link_and_path_args :: args where
  "link_and_path_args =
     \<lparr>link = Some ''https://youtu.be/abc'',
      set_download_path = Some ''/new'',
      show_config_flag = False,
      keep_video = False,
      no_keep_video = False\<rparr>"

text \<open>The command line \<^verbatim>\<open>--link=https://youtu.be/abc --keep-video\<close>.\<close>

definition link_and_keep_args :: args where
  "link_and_keep_args =
     \<lparr>link = Some ''https://youtu.be/abc'',
      set_download_path = None,
      show_config_flag = False,
      keep_video = True,
      no_keep_video = False\<rparr>"

section \<open>Facts about the string functions\<close>

lemma startswith_iff: "startswith s p \<longleftrightarrow> (\<exists>t. s = p @ t)"
  by (induction s p rule: startswith.induct) auto

lemma str_in_iff: "str_in sub s \<longleftrightarrow> (\<exists>pre post. s = pre @ sub @ post)"
proof (induction s)
  case Nil
  show ?case by auto
next
  case (Cons c cs)
  show ?case
  proof
    assume "str_in sub (c # cs)"
    then consider "startswith (c # cs) sub" | "str_in sub cs" by auto
    then show "\<exists>pre post. c # cs = pre @ sub @ post"
    proof cases
      case 1
      then obtain t where "c # cs = sub @ t" by (auto simp: startswith_iff)
      then have "c # cs = [] @ sub @ t" by simp
      then show ?thesis by blast
    next
      case 2
      then obtain pre post where "cs = pre @ sub @ post" using Cons.IH by auto
      then have "c # cs = (c # pre) @ sub @ post" by simp
      then show ?thesis by blast
    qed
  next
    assume "\<exists>pre post. c # cs = pre @ sub @ post"
    then obtain pre post where e: "c # cs = pre @ sub @ post" by auto
    show "str_in sub (c # cs)"
    proof (cases pre)
      case Nil
      with e have "startswith (c # cs) sub" by (auto simp: startswith_iff)
      then show ?thesis by simp
    next
      case (Cons a pre')
      with e have "cs = pre' @ sub @ post" by simp
      then have "str_in sub cs" using Cons.IH by auto
      then show ?thesis by simp
    qed
  qed
qed

section \<open>Facts about paths and about download\<close>

lemma os_path_join_shape:
  "\<not> startswith b ''/'' \<Longrightarrow> \<exists>p. os_path_join a b = p @ b \<and> (p = [] \<or> last p = CHR ''/'')"
  by (auto simp: os_path_join_def intro: exI[of _ "a @ ''/''"])

lemma basename_suffix:
  assumes "CHR ''/'' \<notin> set b" and "p = [] \<or> last p = CHR ''/''"
  shows "basename (p @ b) = b"
proof (cases "p = []")
  case True
  have tw: "takeWhile (\<lambda>c. c \<noteq> CHR ''/'') (rev b) = rev b"
    using assms(1) by (auto simp: takeWhile_eq_all_conv)
  show ?thesis unfolding basename_def True
    by (simp only: append_Nil tw rev_rev_ident)
next
  case False
  with assms(2) obtain q where q: "p = q @ ''/''"
    by (metis append_butlast_last_id)
  have "takeWhile (\<lambda>c. c \<noteq> CHR ''/'') (rev b @ CHR ''/'' # rev q) = rev b"
    using assms(1) by (subst takeWhile_append2) auto
  with q show ?thesis by (simp add: basename_def)
qed

lemma basename_join:
  assumes "CHR ''/'' \<notin> set b"
  shows "basename (os_path_join a b) = b"
proof -
  have "\<not> startswith b ''/''" using assms by (cases b) auto
  then obtain p where "os_path_join a b = p @ b" and "p = [] \<or> last p = CHR ''/''"
    using os_path_join_shape by blast
  then show ?thesis using assms by (simp add: basename_suffix)
qed

lemma make_ydl_opts_fields:
  assumes "make_ydl_opts cfg dir = Inr opts"
  shows "\<exists>fmt q. subscript cfg ''filename_format'' = Inr (JStr fmt) \<and> subscript cfg ''audio_quality'' = Inr q \<and>
     outtmpl opts = os_path_join dir fmt \<and>
     postprocessors opts = [\<lparr>key = ''FFmpegExtractAudio'', preferredcodec = ''mp3'', preferredquality = q\<rparr>]"
  using assms
  by (auto simp: make_ydl_opts_def split: sum.splits json.splits)

lemma options_passed_append: "options_passed (xs @ ys) = options_passed xs @ options_passed ys"
  by (induction xs rule: options_passed.induct) auto

lemma makedirs_calls_append: "makedirs_calls (xs @ ys) = makedirs_calls xs @ makedirs_calls ys"
  by (induction xs rule: makedirs_calls.induct) auto

lemma download_options_passed:
  "options_passed (snd (download w cfg url)) =
     (if \<not> validate_url url then []
      else case get_download_path w cfg of Inl e \<Rightarrow> []
       | Inr dir \<Rightarrow> if \<not> os_path_exists w dir \<and> os_makedirs w dir False \<noteq> None then []
           else (case make_ydl_opts cfg dir of Inl e \<Rightarrow> [] | Inr opts \<Rightarrow> [opts]))"
  by (auto simp: download_def Let_def options_passed_append split: sum.splits option.splits)

lemma download_makedirs_once:
  assumes "validate_url url"
    and "get_download_path w cfg = Inr dir"
    and "\<not> os_path_exists w dir"
  shows "makedirs_calls (snd (download w cfg url)) = [dir]"
    and "os_makedirs w dir False = Some (OSError msg) \<Longrightarrow>
           fst (download w cfg url) = Inr False \<and> external_calls (snd (download w cfg url)) = []"
    and "os_makedirs w dir False = Some e \<Longrightarrow> except_OSError e = None \<Longrightarrow>
           download w cfg url = (Inl e, [MakeDirs dir])"
  using assms
  by (auto simp: download_def Let_def makedirs_calls_append external_calls_def
      split: sum.splits option.splits)

section \<open>Facts about the ConfigManager\<close>

lemma save_config_config:
  "config (fst (save_config w None s)) = config s"
  by (simp add: save_config_def Let_def split: write_result.splits)

lemma save_config_disk:
  "disk (fst (save_config w arg s)) =
     (case open_write w (case arg of None \<Rightarrow> config s | Some c \<Rightarrow> c) of
        WriteOk \<Rightarrow> Some (Document (case arg of None \<Rightarrow> config s | Some c \<Rightarrow> c))
      | OpenFails msg \<Rightarrow> disk s
      | DumpFails left msg \<Rightarrow> Some left)"
  by (simp add: save_config_def Let_def split: write_result.splits)

lemma save_config_events:
  "snd (save_config w arg s) =
     (case open_write w (case arg of None \<Rightarrow> config s | Some c \<Rightarrow> c) of
        WriteOk \<Rightarrow> []
      | OpenFails msg \<Rightarrow> [Print (''Error saving config: '' @ msg)]
      | DumpFails left msg \<Rightarrow> [Print (''Error saving config: '' @ msg)])"
  by (simp add: save_config_def Let_def split: write_result.splits)

lemma calm_defaults: "get_default_config calm_world = Inr calm_defaults"
  by (simp add: get_default_config_def Path_home_def expanduser_def calm_world_def Path_def
      splitroot_def truediv_def path_str_def rstrip_sep_def calm_defaults_def)

section \<open>Facts about expanduser\<close>







section \<open>Facts about the command line\<close>

lemma external_calls_append: "external_calls (xs @ ys) = external_calls xs @ external_calls ys"
  by (simp add: external_calls_def)

lemma external_calls_Nil: "external_calls [] = []"
  by (simp add: external_calls_def)

lemma external_calls_Cons:
  "external_calls (e # es) = (if is_external e then e # external_calls es else external_calls es)"
  by (simp add: external_calls_def)

lemma save_config_external: "external_calls (snd (save_config w arg s)) = []"
  by (simp add: save_config_def Let_def external_calls_def split: write_result.splits)

lemma update_setting_external: "external_calls (snd (snd (update_setting w k v s))) = []"
proof (cases "setitem (config s) k v")
  case (Inl e)
  then show ?thesis by (simp add: update_setting_def external_calls_def)
next
  case (Inr c)
  then show ?thesis by (simp add: update_setting_def case_prod_beta save_config_external)
qed

lemma update_setting_subscript:
  assumes "fst (update_setting w k v s) = Inr u"
  shows "subscript (config (fst (snd (update_setting w k v s)))) k' =
           (if k' = k then Inr v else subscript (config s) k')"
proof (cases "config s")
  case (JObj kvs)
  then show ?thesis
    by (simp add: update_setting_def case_prod_beta save_config_config update_conv')
qed (use assms in \<open>simp_all add: update_setting_def\<close>)

lemma confirm_directory_external:
  "external_calls (snd (snd (confirm_directory w path s))) = []"
  by (cases "stdin s") (simp_all add: confirm_directory_def py_input_def external_calls_def)

lemma confirm_directory_config:
  "config (fst (snd (confirm_directory w path s))) = config s"
  by (cases "stdin s") (simp_all add: confirm_directory_def py_input_def)

lemma confirm_directory_result:
  "fst (confirm_directory w path s) = Inr b \<Longrightarrow> b = (os_path_isdir w path \<or> agrees (stdin s))"
  by (cases "stdin s") (auto simp: confirm_directory_def py_input_def split: if_splits)

lemma set_path_block_external: "external_calls (snd (snd (set_path_block w p s))) = []"
proof (cases "expanduser w p")
  case (Inl e)
  then show ?thesis by (simp add: set_path_block_def external_calls_Nil)
next
  case (Inr path)
  obtain x s1 ev1 where c: "confirm_directory w path s = (x, s1, ev1)"
    by (cases "confirm_directory w path s")
  have e1: "external_calls ev1 = []"
    using confirm_directory_external [of w path s] c by simp
  obtain y s2 ev2 where u: "update_setting w ''download_path'' (JStr p) s1 = (y, s2, ev2)"
    by (cases "update_setting w ''download_path'' (JStr p) s1")
  have e2: "external_calls ev2 = []"
    using update_setting_external [of w "''download_path''" "JStr p" s1] u by simp
  show ?thesis
    using Inr c u e1 e2
    by (simp add: set_path_block_def external_calls_append external_calls_Cons
        external_calls_Nil split: sum.splits bool.splits option.splits)
qed

lemma set_path_block_result:
  assumes "fst (set_path_block w p s) = Inr c"
  shows "c = (\<exists>path. expanduser w p = Inr path
              \<and> (os_path_isdir w path \<or> agrees (stdin s))
              \<and> os_makedirs w path True = None)
       \<and> subscript (config (fst (snd (set_path_block w p s)))) k' =
           (if c \<and> k' = ''download_path'' then Inr (JStr p) else subscript (config s) k')"
proof (cases "expanduser w p")
  case (Inl e)
  with assms show ?thesis by (simp add: set_path_block_def)
next
  case ex: (Inr path)
  obtain x s1 ev1 where cd: "confirm_directory w path s = (x, s1, ev1)"
    by (cases "confirm_directory w path s")
  have c1: "config s1 = config s"
    using confirm_directory_config [of w path s] cd by simp
  obtain y s2 ev2 where u: "update_setting w ''download_path'' (JStr p) s1 = (y, s2, ev2)"
    by (cases "update_setting w ''download_path'' (JStr p) s1")
  show ?thesis
  proof (cases x)
    case (Inl e)
    with assms ex cd show ?thesis by (simp add: set_path_block_def)
  next
    case (Inr b)
    from confirm_directory_result [of w path s b] cd Inr
    have b: "b = (os_path_isdir w path \<or> agrees (stdin s))" by simp
    show ?thesis
    proof (cases b)
      case False
      with assms ex cd Inr b c1 show ?thesis by (auto simp: set_path_block_def)
    next
      case True
      show ?thesis
      proof (cases "os_makedirs w path True")
        case (Some e)
        with assms ex cd Inr True b c1 show ?thesis
          by (auto simp: set_path_block_def split: option.splits)
      next
        case None
        show ?thesis
        proof (cases y)
          case (Inl e)
          with assms ex cd Inr True None u show ?thesis
            by (simp add: set_path_block_def \<open>x = Inr b\<close>)
        next
          case (Inr uu)
          have "subscript (config s2) k' =
                  (if k' = ''download_path'' then Inr (JStr p) else subscript (config s1) k')"
            using update_setting_subscript [of w "''download_path''" "JStr p" s1 uu k'] u Inr
            by simp
          with assms ex cd \<open>x = Inr b\<close> True None u Inr b c1 show ?thesis
            by (auto simp: set_path_block_def)
        qed
      qed
    qed
  qed
qed

lemma keep_block_external:
  "external_calls ev = [] \<Longrightarrow> external_calls (snd (snd (keep_block w f val msg (c, s, ev)))) = []"
proof -
  assume e: "external_calls ev = []"
  obtain y s2 ev2 where u: "update_setting w ''keep_video'' (JBool val) s = (y, s2, ev2)"
    by (cases "update_setting w ''keep_video'' (JBool val) s")
  have e2: "external_calls ev2 = []"
    using update_setting_external [of w "''keep_video''" "JBool val" s] u by simp
  show ?thesis using e e2 u
    by (simp add: keep_block_def external_calls_append external_calls_Cons external_calls_Nil
        split: sum.splits)
qed

lemma keep_block_result:
  assumes "fst (keep_block w f val msg (c, s, ev)) = Inr c'"
  shows "c' = (c \<or> f)
       \<and> subscript (config (fst (snd (keep_block w f val msg (c, s, ev))))) k' =
           (if f \<and> k' = ''keep_video'' then Inr (JBool val) else subscript (config s) k')"
proof (cases f)
  case False
  with assms show ?thesis by (simp add: keep_block_def)
next
  case True
  obtain y s2 ev2 where u: "update_setting w ''keep_video'' (JBool val) s = (y, s2, ev2)"
    by (cases "update_setting w ''keep_video'' (JBool val) s")
  show ?thesis
  proof (cases y)
    case (Inl e)
    with assms True u show ?thesis by (simp add: keep_block_def)
  next
    case (Inr uu)
    have "subscript (config s2) k' =
            (if k' = ''keep_video'' then Inr (JBool val) else subscript (config s) k')"
      using update_setting_subscript [of w "''keep_video''" "JBool val" s uu k'] u Inr by simp
    with assms True u Inr show ?thesis by (auto simp: keep_block_def)
  qed
qed

lemma show_config_external: "external_calls (snd (show_config cfg)) = []"
proof (cases "items cfg")
  case (Inl e)
  then show ?thesis
    by (simp add: show_config_def external_calls_Cons external_calls_Nil)
next
  case (Inr kvs)
  have "filter is_external (map (\<lambda>(k, v). PrintF (''  '' @ k @ '': '') v []) kvs) = []"
    by (induction kvs) auto
  with Inr show ?thesis
    by (simp add: show_config_def external_calls_Cons) (simp add: external_calls_def)
qed

lemma handle_config_commands_show:
  assumes "show_config_flag a"
  shows "fst (snd (handle_config_commands w a s)) = s"
    and "snd (snd (handle_config_commands w a s)) = snd (show_config (config s))"
    and "fst (handle_config_commands w a s) = Inr b \<Longrightarrow> b"
  using assms
  by (cases "show_config (config s)"; cases "fst (show_config (config s))";
      simp add: handle_config_commands_def)+

lemma first_block_facts:
  fixes w a s
  defines "r1 \<equiv> (case truthy (set_download_path a) of
                    Some p \<Rightarrow> set_path_block w p s
                  | None \<Rightarrow> (Inr False, s, []))"
  shows "external_calls (snd (snd r1)) = []"
    and "fst r1 = Inr c \<Longrightarrow> set_download_path a = Some p \<Longrightarrow>
           subscript (config (fst (snd r1))) ''download_path'' =
             (if p \<noteq> [] \<and> (\<exists>path. expanduser w p = Inr path
                     \<and> (os_path_isdir w path \<or> agrees (stdin s))
                     \<and> os_makedirs w path True = None)
              then Inr (JStr p) else subscript (config s) ''download_path'')"
    and "fst r1 = Inr c \<Longrightarrow> set_download_path a = None \<Longrightarrow> \<not> c"
proof -
  show "external_calls (snd (snd r1)) = []"
    by (cases "set_download_path a")
       (simp_all add: r1_def set_path_block_external external_calls_Nil)
  show "subscript (config (fst (snd r1))) ''download_path'' =
             (if p \<noteq> [] \<and> (\<exists>path. expanduser w p = Inr path
                     \<and> (os_path_isdir w path \<or> agrees (stdin s))
                     \<and> os_makedirs w path True = None)
              then Inr (JStr p) else subscript (config s) ''download_path'')"
    if "fst r1 = Inr c" and "set_download_path a = Some p"
  proof (cases "p = []")
    case True
    with that show ?thesis by (simp add: r1_def)
  next
    case False
    with that have "fst (set_path_block w p s) = Inr c" and r: "r1 = set_path_block w p s"
      by (simp_all add: r1_def)
    from set_path_block_result [OF this(1), of "''download_path''"] False r
    show ?thesis by auto
  qed
  show "\<not> c" if "fst r1 = Inr c" and "set_download_path a = None"
    using that by (simp add: r1_def)
qed

lemma handle_config_commands_blocks:
  assumes ns: "\<not> show_config_flag a"
  shows "external_calls (snd (snd (handle_config_commands w a s))) = []"
    and "fst (handle_config_commands w a s) = Inr b \<Longrightarrow>
           b = (keep_video a \<or> no_keep_video a \<or> set_download_path a \<noteq> None)"
    and "fst (handle_config_commands w a s) = Inr b \<Longrightarrow> keep_video a \<or> no_keep_video a \<Longrightarrow>
           subscript (config (fst (snd (handle_config_commands w a s)))) ''keep_video'' =
             Inr (JBool (\<not> no_keep_video a))"
    and "fst (handle_config_commands w a s) = Inr b \<Longrightarrow> set_download_path a = Some p \<Longrightarrow>
           subscript (config (fst (snd (handle_config_commands w a s)))) ''download_path'' =
             (if p \<noteq> [] \<and> (\<exists>path. expanduser w p = Inr path
                     \<and> (os_path_isdir w path \<or> agrees (stdin s))
                     \<and> os_makedirs w path True = None)
              then Inr (JStr p) else subscript (config s) ''download_path'')"
proof -
  let ?kept = "''Video files will now be kept after MP3 conversion''"
  let ?deleted = "''Video files will now be deleted after MP3 conversion (default)''"
  define r1 where "r1 = (case truthy (set_download_path a) of
                           Some p \<Rightarrow> set_path_block w p s
                         | None \<Rightarrow> (Inr False, s, []))"
  obtain x1 s1 ev1 where r1: "r1 = (x1, s1, ev1)" by (cases r1)
  have e1: "external_calls ev1 = []"
    using first_block_facts(1) [where a=a and w=w and s=s] r1 by (simp add: r1_def)
  have h1: "handle_config_commands w a s =
              (case x1 of
                 Inl e \<Rightarrow> (Inl e, s1, ev1)
               | Inr c1 \<Rightarrow>
                   (case keep_block w (keep_video a) True ?kept (c1, s1, ev1) of
                      (Inl e, s2, ev2) \<Rightarrow> (Inl e, s2, ev2)
                    | (Inr c2, s2, ev2) \<Rightarrow>
                        (case keep_block w (no_keep_video a) False ?deleted (c2, s2, ev2) of
                           (Inl e, s3, ev3) \<Rightarrow> (Inl e, s3, ev3)
                         | (Inr c3, s3, ev3) \<Rightarrow>
                             (Inr (c3 \<or> set_download_path a \<noteq> None), s3, ev3))))"
    using ns r1 unfolding r1_def by (cases x1) (simp_all add: handle_config_commands_def)
  show "external_calls (snd (snd (handle_config_commands w a s))) = []"
  proof (cases x1)
    case (Inl e)
    with h1 e1 show ?thesis by simp
  next
    case (Inr c1)
    obtain x2 s2 ev2 where r2: "keep_block w (keep_video a) True ?kept (c1, s1, ev1) = (x2, s2, ev2)"
      by (cases "keep_block w (keep_video a) True ?kept (c1, s1, ev1)")
    have e2: "external_calls ev2 = []"
      using keep_block_external [OF e1, of w "keep_video a" True ?kept c1 s1] r2 by simp
    show ?thesis
    proof (cases x2)
      case (Inl e)
      with h1 Inr r2 e2 show ?thesis by simp
    next
      case x2: (Inr c2)
      obtain x3 s3 ev3
        where r3: "keep_block w (no_keep_video a) False ?deleted (c2, s2, ev2) = (x3, s3, ev3)"
        by (cases "keep_block w (no_keep_video a) False ?deleted (c2, s2, ev2)")
      have e3: "external_calls ev3 = []"
        using keep_block_external [OF e2, of w "no_keep_video a" False ?deleted c2 s2] r3 by simp
      from h1 Inr r2 x2 r3 e3 show ?thesis by (cases x3) simp_all
    qed
  qed
  assume ok: "fst (handle_config_commands w a s) = Inr b"
  from ok h1 obtain c1 where x1: "x1 = Inr c1" by (cases x1) simp_all
  obtain x2 s2 ev2 where r2: "keep_block w (keep_video a) True ?kept (c1, s1, ev1) = (x2, s2, ev2)"
    by (cases "keep_block w (keep_video a) True ?kept (c1, s1, ev1)")
  from ok h1 x1 r2 obtain c2 where x2: "x2 = Inr c2" by (cases x2) simp_all
  obtain x3 s3 ev3
    where r3: "keep_block w (no_keep_video a) False ?deleted (c2, s2, ev2) = (x3, s3, ev3)"
    by (cases "keep_block w (no_keep_video a) False ?deleted (c2, s2, ev2)")
  from ok h1 x1 r2 x2 r3 obtain c3 where x3: "x3 = Inr c3" by (cases x3) simp_all
  have fin: "handle_config_commands w a s = (Inr (c3 \<or> set_download_path a \<noteq> None), s3, ev3)"
    using h1 x1 r2 x2 r3 x3 by simp
  have k2: "c2 = (c1 \<or> keep_video a)"
    and g2: "subscript (config s2) k' =
               (if keep_video a \<and> k' = ''keep_video'' then Inr (JBool True)
                else subscript (config s1) k')" for k'
    using keep_block_result [of w "keep_video a" True ?kept c1 s1 ev1 c2 k'] r2 x2 by simp_all
  have k3: "c3 = (c2 \<or> no_keep_video a)"
    and g3: "subscript (config s3) k' =
               (if no_keep_video a \<and> k' = ''keep_video'' then Inr (JBool False)
                else subscript (config s2) k')" for k'
    using keep_block_result [of w "no_keep_video a" False ?deleted c2 s2 ev2 c3 k'] r3 x3
    by simp_all
  have f1: "fst r1 = Inr c1" "fst (snd r1) = s1" using r1 x1 by simp_all
  have n1: "set_download_path a = None \<Longrightarrow> \<not> c1"
    using first_block_facts(3) [where a=a and w=w and s=s and c=c1] f1 by (simp add: r1_def)
  show "b = (keep_video a \<or> no_keep_video a \<or> set_download_path a \<noteq> None)"
    using ok fin k2 k3 n1 by auto
  show "subscript (config (fst (snd (handle_config_commands w a s)))) ''keep_video'' =
             Inr (JBool (\<not> no_keep_video a))" if "keep_video a \<or> no_keep_video a"
    using that fin g2 [of "''keep_video''"] g3 [of "''keep_video''"] by auto
  show "subscript (config (fst (snd (handle_config_commands w a s)))) ''download_path'' =
             (if p \<noteq> [] \<and> (\<exists>path. expanduser w p = Inr path
                     \<and> (os_path_isdir w path \<or> agrees (stdin s))
                     \<and> os_makedirs w path True = None)
              then Inr (JStr p) else subscript (config s) ''download_path'')"
    if "set_download_path a = Some p"
  proof -
    have "subscript (config s1) ''download_path'' =
             (if p \<noteq> [] \<and> (\<exists>path. expanduser w p = Inr path
                     \<and> (os_path_isdir w path \<or> agrees (stdin s))
                     \<and> os_makedirs w path True = None)
              then Inr (JStr p) else subscript (config s) ''download_path'')"
      using first_block_facts(2) [where a=a and w=w and s=s and c=c1 and p=p] f1 that by (simp add: r1_def)
    then show ?thesis
      using fin g2 [of "''download_path''"] g3 [of "''download_path''"] by simp
  qed
qed

section \<open>Facts about pathlib and about load_config\<close>

lemma split_sep_plain: "CHR ''/'' \<notin> set c \<Longrightarrow> split_sep c = [c]"
  by (induction c) auto

lemma split_sep_cons: "CHR ''/'' \<notin> set c \<Longrightarrow> split_sep (c @ CHR ''/'' # rest) = c # split_sep rest"
  by (induction c) auto

lemma split_sep_join:
  "cs \<noteq> [] \<Longrightarrow> \<forall>c \<in> set cs. CHR ''/'' \<notin> set c \<Longrightarrow> split_sep (join_sep cs) = cs"
  by (induction cs rule: join_sep.induct) (auto simp: split_sep_plain split_sep_cons)

lemma concat_slash:
  "cs \<noteq> [] \<Longrightarrow> concat (map ((#) CHR ''/'') cs) = CHR ''/'' # join_sep cs"
  by (induction cs rule: join_sep.induct) auto

lemma join_sep_snoc: "cs \<noteq> [] \<Longrightarrow> join_sep (cs @ [d]) = join_sep cs @ CHR ''/'' # d"
  by (induction cs rule: join_sep.induct) auto

lemma join_sep_hd:
  "cs \<noteq> [] \<Longrightarrow> hd cs \<noteq> [] \<Longrightarrow> join_sep cs \<noteq> [] \<and> hd (join_sep cs) = hd (hd cs)"
  by (induction cs rule: join_sep.induct) auto

lemma join_sep_last:
  "cs \<noteq> [] \<Longrightarrow> last cs \<noteq> [] \<Longrightarrow>
     join_sep cs \<noteq> [] \<and> last (join_sep cs) = last (last cs)"
  by (induction cs rule: join_sep.induct) auto

lemma rstrip_sep_id: "s \<noteq> [] \<Longrightarrow> last s \<noteq> CHR ''/'' \<Longrightarrow> rstrip_sep s = s"
proof -
  assume a: "s \<noteq> []" "last s \<noteq> CHR ''/''"
  then have "hd (rev s) \<noteq> CHR ''/''" by (simp add: hd_rev)
  with a(1) have "dropWhile (\<lambda>c. c = CHR ''/'') (rev s) = rev s" by (cases "rev s") auto
  then show ?thesis by (simp add: rstrip_sep_def)
qed

lemma clean_home_downloads:
  assumes h: "env_HOME w = Some (concat (map ((#) CHR ''/'') cs))"
    and ne: "cs \<noteq> []"
    and cl: "\<forall>c \<in> set cs. c \<noteq> [] \<and> c \<noteq> ''.'' \<and> CHR ''/'' \<notin> set c"
  shows "Path_home w = Inr \<lparr>root = ''/'', names = cs\<rparr>"
    and "path_str (truediv \<lparr>root = ''/'', names = cs\<rparr> ''Downloads'')
           = concat (map ((#) CHR ''/'') cs) @ ''/Downloads''"
proof -
  let ?h = "CHR ''/'' # join_sep cs"
  have hh: "concat (map ((#) CHR ''/'') cs) = ?h" using ne by (rule concat_slash)
  have lc: "last cs \<noteq> []" "CHR ''/'' \<notin> set (last cs)" "hd cs \<noteq> []" "CHR ''/'' \<notin> set (hd cs)"
    using ne cl by auto
  have j: "join_sep cs \<noteq> []" "hd (join_sep cs) = hd (hd cs)"
    using join_sep_hd [OF ne lc(3)] by simp_all
  have jl: "last (join_sep cs) = last (last cs)" using join_sep_last [OF ne lc(1)] by simp
  have "last (last cs) \<in> set (last cs)" using lc(1) by simp
  with lc(2) have "last (last cs) \<noteq> CHR ''/''" by auto
  with j(1) jl have "last ?h \<noteq> CHR ''/''" by simp
  then have rs: "rstrip_sep ?h = ?h" by (intro rstrip_sep_id) simp_all
  have ex: "expanduser w ''~'' = Inr ?h"
    using h rs by (simp add: expanduser_def hh)
  have "hd (hd cs) \<in> set (hd cs)" using lc(3) by simp
  with lc(4) have "hd (hd cs) \<noteq> CHR ''/''" by auto
  with j have dw: "dropWhile (\<lambda>c. c = CHR ''/'') (join_sep cs) = join_sep cs"
    by (cases "join_sep cs") auto
  have sr: "splitroot ?h = (''/'', join_sep cs)"
    by (simp add: splitroot_def dw)
  have sp: "split_sep (join_sep cs) = cs" using ne cl by (intro split_sep_join) auto
  have fl: "filter (\<lambda>x. x \<noteq> [] \<and> x \<noteq> ''.'') cs = cs" using cl by (auto simp: filter_id_conv)
  have pa: "Path ?h = \<lparr>root = ''/'', names = cs\<rparr>"
    by (simp add: Path_def sr sp fl)
  show "Path_home w = Inr \<lparr>root = ''/'', names = cs\<rparr>"
    by (simp add: Path_home_def ex pa)
  have pd: "Path ''Downloads'' = \<lparr>root = [], names = [''Downloads'']\<rparr>"
    by (simp add: Path_def splitroot_def)
  show "path_str (truediv \<lparr>root = ''/'', names = cs\<rparr> ''Downloads'')
           = concat (map ((#) CHR ''/'') cs) @ ''/Downloads''"
    using ne by (simp add: truediv_def pd path_str_def join_sep_snoc hh)
qed

lemma denied_defaults: "get_default_config denied_world = Inr calm_defaults"
  by (simp add: get_default_config_def Path_home_def expanduser_def denied_world_def
      calm_world_def Path_def splitroot_def truediv_def path_str_def rstrip_sep_def
      calm_defaults_def)

lemma load_config_no_file:
  assumes "exists_error w = None" and "disk s = None" and "get_default_config w = Inr d"
  shows "load_config w s =
           (Inr d, fst (save_config w (Some d) s), snd (save_config w (Some d) s))"
  using assms by (simp add: load_config_def case_prod_beta)

lemma load_config_malformed:
  assumes "exists_error w = None" and "disk s = Some (Malformed t)"
  shows "load_config w s =
           (get_default_config w, s,
            [Print (''Error loading config: '' @
                    (case open_read w of Some msg \<Rightarrow> msg | None \<Rightarrow> decode_error w t)),
             Print ''Using default configuration...''])"
  using assms by (simp add: load_config_def split: option.splits)

section \<open>Claims\<close>

text \<open>
  C1. For every valid URL, when the settings hold \<open>audio_quality\<close> "320" and
  \<open>filename_format\<close> "X_%(title)s.%(ext)s", every option set that \<open>download\<close> passes to
  \<open>yt_dlp.YoutubeDL\<close> has the preferred codec "mp3", the preferred quality "320" and an
  output template that is \<open>os.path.join\<close> of the configured download path and the file
  name format, so that its base name is the format, which starts with "X_". When the
  configured directory exists or can be created, exactly one option set is passed.
\<close>

theorem download_options:
  assumes "validate_url url"
    and "subscript cfg ''audio_quality'' = Inr (JStr ''320'')"
    and "subscript cfg ''filename_format'' = Inr (JStr ''X_%(title)s.%(ext)s'')"
  shows "(\<forall>opts \<in> set (options_passed (snd (download w cfg url))).
            map preferredcodec (postprocessors opts) = [''mp3'']
          \<and> map preferredquality (postprocessors opts) = [JStr ''320'']
          \<and> (\<exists>dir. get_download_path w cfg = Inr dir
                 \<and> outtmpl opts = os_path_join dir ''X_%(title)s.%(ext)s'')
          \<and> basename (outtmpl opts) = ''X_%(title)s.%(ext)s''
          \<and> startswith (basename (outtmpl opts)) ''X_'')
       \<and> (\<forall>dir. get_download_path w cfg = Inr dir
                \<and> (os_path_exists w dir \<or> os_makedirs w dir False = None)
             \<longrightarrow> length (options_passed (snd (download w cfg url))) = 1)"
proof -
  have bn: "basename (os_path_join dir ''X_%(title)s.%(ext)s'') = ''X_%(title)s.%(ext)s''" for dir
    by (rule basename_join) simp
  have mk: "\<exists>opts. make_ydl_opts cfg dir = Inr opts" for dir
    using assms(2,3) by (cases cfg) (auto simp: make_ydl_opts_def)
  have 1: "\<forall>opts \<in> set (options_passed (snd (download w cfg url))).
            map preferredcodec (postprocessors opts) = [''mp3'']
          \<and> map preferredquality (postprocessors opts) = [JStr ''320'']
          \<and> (\<exists>dir. get_download_path w cfg = Inr dir
                 \<and> outtmpl opts = os_path_join dir ''X_%(title)s.%(ext)s'')
          \<and> basename (outtmpl opts) = ''X_%(title)s.%(ext)s''
          \<and> startswith (basename (outtmpl opts)) ''X_''"
  proof
    fix opts assume "opts \<in> set (options_passed (snd (download w cfg url)))"
    then have "\<exists>dir. get_download_path w cfg = Inr dir \<and> make_ydl_opts cfg dir = Inr opts"
      by (cases "get_download_path w cfg")
         (auto simp: download_options_passed split: if_splits sum.splits)
    then obtain dir where d: "get_download_path w cfg = Inr dir" and m: "make_ydl_opts cfg dir = Inr opts"
      by blast
    from make_ydl_opts_fields[OF m] assms(2,3)
    have o: "outtmpl opts = os_path_join dir ''X_%(title)s.%(ext)s''"
      and p: "postprocessors opts = [\<lparr>key = ''FFmpegExtractAudio'', preferredcodec = ''mp3'', preferredquality = JStr ''320''\<rparr>]"
      by auto
    show "map preferredcodec (postprocessors opts) = [''mp3'']
          \<and> map preferredquality (postprocessors opts) = [JStr ''320'']
          \<and> (\<exists>dir. get_download_path w cfg = Inr dir
                 \<and> outtmpl opts = os_path_join dir ''X_%(title)s.%(ext)s'')
          \<and> basename (outtmpl opts) = ''X_%(title)s.%(ext)s''
          \<and> startswith (basename (outtmpl opts)) ''X_''"
      using d o p bn[of dir] by simp
  qed
  have 2: "\<forall>dir. get_download_path w cfg = Inr dir
                \<and> (os_path_exists w dir \<or> os_makedirs w dir False = None)
             \<longrightarrow> length (options_passed (snd (download w cfg url))) = 1"
  proof (intro allI impI)
    fix dir
    assume a: "get_download_path w cfg = Inr dir
                \<and> (os_path_exists w dir \<or> os_makedirs w dir False = None)"
    obtain opts where "make_ydl_opts cfg dir = Inr opts" using mk by blast
    with a assms(1) show "length (options_passed (snd (download w cfg url))) = 1"
      by (auto simp: download_options_passed)
  qed
  from 1 2 show ?thesis by blast
qed

theorem download_options_witness:
  "validate_url ''https://youtu.be/abc''
   \<and> subscript custom_config ''audio_quality'' = Inr (JStr ''320'')
   \<and> subscript custom_config ''filename_format'' = Inr (JStr ''X_%(title)s.%(ext)s'')
   \<and> get_download_path calm_world custom_config = Inr ''/home/user/Music''
   \<and> os_makedirs calm_world ''/home/user/Music'' False = None
   \<and> (\<exists>opts. options_passed (snd (download calm_world custom_config ''https://youtu.be/abc'')) = [opts]
        \<and> map preferredcodec (postprocessors opts) = [''mp3'']
        \<and> map preferredquality (postprocessors opts) = [JStr ''320'']
        \<and> outtmpl opts = ''/home/user/Music/X_%(title)s.%(ext)s''
        \<and> basename (outtmpl opts) = ''X_%(title)s.%(ext)s''
        \<and> startswith (basename (outtmpl opts)) ''X_'')"
proof -
  let ?passed = "options_passed (snd (download calm_world custom_config ''https://youtu.be/abc''))"
  have h1: "validate_url ''https://youtu.be/abc''" by (simp add: validate_url_def)
  have h2: "subscript custom_config ''audio_quality'' = Inr (JStr ''320'')"
    by (simp add: custom_config_def)
  have h3: "subscript custom_config ''filename_format'' = Inr (JStr ''X_%(title)s.%(ext)s'')"
    by (simp add: custom_config_def)
  have h4: "get_download_path calm_world custom_config = Inr ''/home/user/Music''"
    by (simp add: get_download_path_def custom_config_def expanduser_def
        calm_world_def rstrip_sep_def)
  have h5: "os_makedirs calm_world ''/home/user/Music'' False = None"
    by (simp add: os_makedirs_def calm_world_def)
  have j: "os_path_join ''/home/user/Music'' ''X_%(title)s.%(ext)s''
             = ''/home/user/Music/X_%(title)s.%(ext)s''"
    by (simp add: os_path_join_def)
  note t = download_options [OF h1 h2 h3, of calm_world]
  note a = t [THEN conjunct1]
  note b = t [THEN conjunct2, rule_format, OF conjI [OF h4 disjI2 [OF h5]]]
  from b obtain opts where o: "?passed = [opts]"
    by (auto simp: length_Suc_conv)
  then have "opts \<in> set ?passed" by simp
  note p = a [rule_format, OF this]
  from p h4 j have q: "outtmpl opts = ''/home/user/Music/X_%(title)s.%(ext)s''"
    by auto
  have e: "\<exists>opts. ?passed = [opts]
        \<and> map preferredcodec (postprocessors opts) = [''mp3'']
        \<and> map preferredquality (postprocessors opts) = [JStr ''320'']
        \<and> outtmpl opts = ''/home/user/Music/X_%(title)s.%(ext)s''
        \<and> basename (outtmpl opts) = ''X_%(title)s.%(ext)s''
        \<and> startswith (basename (outtmpl opts)) ''X_''"
    by (rule exI [of _ opts])
       (intro conjI o q p [THEN conjunct1] p [THEN conjunct2, THEN conjunct1]
          p [THEN conjunct2, THEN conjunct2, THEN conjunct2, THEN conjunct1]
          p [THEN conjunct2, THEN conjunct2, THEN conjunct2, THEN conjunct2])
  show ?thesis by (intro conjI h1 h2 h3 h4 h5 e)
qed

text \<open>
  C2. For every string \<open>url\<close> that \<open>validate_url\<close> rejects, \<open>download\<close> returns \<open>False\<close>,
  and all it does is print the error message: it calls nothing of the external
  media-download library (no metadata extraction, no fetch) and does not call
  \<open>os.makedirs\<close>.
\<close>

theorem download_invalid_url:
  assumes "\<not> validate_url url"
  shows "download w cfg url = (Inr False, [Print ''Error: Invalid YouTube URL''])
         \<and> external_calls (snd (download w cfg url)) = []
         \<and> makedirs_calls (snd (download w cfg url)) = []"
  using assms by (simp add: download_def external_calls_def)

theorem download_invalid_url_witness:
  "\<not> validate_url ''https://example.com''
   \<and> download calm_world (calm_defaults) ''https://example.com''
       = (Inr False, [Print ''Error: Invalid YouTube URL''])
   \<and> external_calls (snd (download calm_world (calm_defaults) ''https://example.com'')) = []
   \<and> makedirs_calls (snd (download calm_world (calm_defaults) ''https://example.com'')) = []"
proof -
  have h: "\<not> validate_url ''https://example.com''" by (simp add: validate_url_def)
  show ?thesis by (rule conjI [OF h download_invalid_url [OF h]])
qed

text \<open>
  C3. The claim is that for every valid URL, when the configured target directory does not
  exist, \<open>download\<close> attempts to create it exactly once and, if that creation fails,
  returns \<open>False\<close> without calling the external library. The \<open>try\<close> around \<open>os.makedirs\<close>
  (line 38) catches OSError only, while the \<open>try\<close> around the fetch catches every
  Exception. Evaluated on settings whose download path holds a NUL character, loaded
  from a settings file: \<open>os.path.exists\<close> is false, \<open>os.makedirs\<close> is called once and
  raises ValueError, and the exception leaves \<open>download\<close>.
\<close>

theorem download_raises_on_nul_directory:
  "ConfigManager calm_world (Some (Document nul_config)) [] =
     (Inr (), \<lparr>config = nul_config, disk = Some (Document nul_config), stdin = []\<rparr>, [])
   \<and> validate_url ''https://youtu.be/abc''
   \<and> get_download_path calm_world nul_config = Inr (''/tmp/a'' @ [CHR 0x00] @ ''b'')
   \<and> os_path_exists calm_world (''/tmp/a'' @ [CHR 0x00] @ ''b'') = False
   \<and> os_makedirs calm_world (''/tmp/a'' @ [CHR 0x00] @ ''b'') False = Some ValueError
   \<and> download calm_world nul_config ''https://youtu.be/abc''
       = (Inl ValueError, [MakeDirs (''/tmp/a'' @ [CHR 0x00] @ ''b'')])"
  by (simp add: ConfigManager_def load_config_def calm_world_def nul_config_def download_def
      validate_url_def get_download_path_def expanduser_def os_path_exists_def os_makedirs_def)

text \<open>
  C4. The claim is that \<open>download\<close> returns a boolean and never raises, for every URL and
  every settings state, also when the settings file parsed but lacks some of the four
  keys. Evaluated on a settings file that holds \<open>download_path\<close> and \<open>audio_quality\<close> only,
  loaded by the ConfigManager, \<open>download\<close> on a valid URL raises KeyError for
  \<open>filename_format\<close>: the subscript at line 44 is outside both \<open>try\<close> blocks, while
  \<open>keep_video\<close> in the same dictionary is read with \<open>.get("keep_video", False)\<close>.
\<close>

theorem download_raises_on_missing_key:
  "ConfigManager calm_world (Some (Document partial_config)) [] =
     (Inr (), \<lparr>config = partial_config, disk = Some (Document partial_config), stdin = []\<rparr>, [])
   \<and> validate_url ''https://youtu.be/abc''
   \<and> download calm_world partial_config ''https://youtu.be/abc''
       = (Inl (KeyError ''filename_format''), [])"
  by (simp add: ConfigManager_def load_config_def calm_world_def partial_config_def download_def
      validate_url_def get_download_path_def expanduser_def make_ydl_opts_def os_path_exists_def)

text \<open>
  C5. For every string \<open>url\<close>, \<open>validate_url url\<close> is true if and only if \<open>url\<close> contains
  \<open>youtube.com\<close> or \<open>youtu.be\<close> as a substring, that is, \<open>url\<close> is some prefix, then the
  marker, then some suffix; in particular the empty string is rejected.
\<close>

theorem validate_url_iff_marker:
  "(validate_url url \<longleftrightarrow>
      (\<exists>pre post. url = pre @ ''youtube.com'' @ post) \<or>
      (\<exists>pre post. url = pre @ ''youtu.be'' @ post))
   \<and> \<not> validate_url ''''"
  by (simp add: validate_url_def str_in_iff)

text \<open>
  C6. The claim is that \<open>load_config\<close>, when no settings file exists, constructs the
  documented defaults, persists them to disk and returns them. \<open>save_config\<close> catches the
  IOError of a failed write and only prints it, so on a machine where the file cannot be
  written the defaults are returned and no file exists afterwards.
\<close>

theorem load_config_not_persisted_counterexample:
  "disk \<lparr>config = JNull, disk = None, stdin = []\<rparr> = None
   \<and> load_config denied_world \<lparr>config = JNull, disk = None, stdin = []\<rparr>
       = (Inr calm_defaults,
          \<lparr>config = JNull, disk = None, stdin = []\<rparr>,
          [Print ''Error saving config: [Errno 13] Permission denied''])
   \<and> ConfigManager denied_world None []
       = (Inr (), \<lparr>config = calm_defaults, disk = None, stdin = []\<rparr>,
          [Print ''Error saving config: [Errno 13] Permission denied''])"
proof -
  have y: "exists_error denied_world = None" by (simp add: denied_world_def calm_world_def)
  have no: "open_write denied_world v = OpenFails ''[Errno 13] Permission denied''" for v
    by (simp add: denied_world_def)
  show ?thesis
    by (simp add: ConfigManager_def load_config_def denied_defaults save_config_def y no)
qed

text \<open>
  C6, amended. When no settings file exists (\<open>self.config_file.exists()\<close> is false) and
  the home directory of the user can be determined, \<open>load_config\<close> constructs the
  documented defaults (\<open>download_path\<close> the home directory, as \<open>pathlib\<close> writes it, with
  \<open>Downloads\<close> appended, so \<open>/home/user/Downloads\<close> for the HOME \<open>/home/user\<close>;
  \<open>audio_quality\<close> "192"; \<open>filename_format\<close> "%(title)s.%(ext)s"; \<open>keep_video\<close> false) and
  returns them in memory. When the write succeeds they are persisted to disk and nothing
  is printed; when the file cannot be opened for writing the error is printed, the
  defaults are still returned and no file is created.
\<close>

theorem load_config_creates_defaults:
  assumes "exists_error w = None" and "disk s = None" and "get_default_config w = Inr d"
  shows "fst (load_config w s) = Inr d
       \<and> (\<exists>home. Path_home w = Inr home
              \<and> d = JObj [(''download_path'', JStr (path_str (truediv home ''Downloads''))),
                          (''audio_quality'', JStr ''192''),
                          (''filename_format'', JStr ''%(title)s.%(ext)s''),
                          (''keep_video'', JBool False)])
       \<and> (\<forall>cs. env_HOME w = Some (concat (map ((#) CHR ''/'') cs)) \<and> cs \<noteq> []
              \<and> (\<forall>c \<in> set cs. c \<noteq> [] \<and> c \<noteq> ''.'' \<and> CHR ''/'' \<notin> set c)
            \<longrightarrow> subscript d ''download_path'' =
                  Inr (JStr (concat (map ((#) CHR ''/'') cs) @ ''/Downloads'')))
       \<and> (open_write w d = WriteOk \<longrightarrow>
            snd (load_config w s) = (s\<lparr>disk := Some (Document d), config := d\<rparr>, []))
       \<and> (\<forall>msg. open_write w d = OpenFails msg \<longrightarrow>
            snd (load_config w s) = (s, [Print (''Error saving config: '' @ msg)]))"
proof -
  note l = load_config_no_file [OF assms]
  have 1: "fst (load_config w s) = Inr d" by (simp add: l)
  have 2: "\<exists>home. Path_home w = Inr home
              \<and> d = JObj [(''download_path'', JStr (path_str (truediv home ''Downloads''))),
                          (''audio_quality'', JStr ''192''),
                          (''filename_format'', JStr ''%(title)s.%(ext)s''),
                          (''keep_video'', JBool False)]"
    using assms(3) by (cases "Path_home w") (auto simp: get_default_config_def)
  have 3: "\<forall>cs. env_HOME w = Some (concat (map ((#) CHR ''/'') cs)) \<and> cs \<noteq> []
              \<and> (\<forall>c \<in> set cs. c \<noteq> [] \<and> c \<noteq> ''.'' \<and> CHR ''/'' \<notin> set c)
            \<longrightarrow> subscript d ''download_path'' =
                  Inr (JStr (concat (map ((#) CHR ''/'') cs) @ ''/Downloads''))"
  proof (intro allI impI, elim conjE)
    fix cs
    assume h: "env_HOME w = Some (concat (map ((#) CHR ''/'') cs))" and ne: "cs \<noteq> []"
      and cl: "\<forall>c \<in> set cs. c \<noteq> [] \<and> c \<noteq> ''.'' \<and> CHR ''/'' \<notin> set c"
    from 2 clean_home_downloads [OF h ne cl]
    show "subscript d ''download_path'' =
            Inr (JStr (concat (map ((#) CHR ''/'') cs) @ ''/Downloads''))"
      by auto
  qed
  have 4: "open_write w d = WriteOk \<longrightarrow>
            snd (load_config w s) = (s\<lparr>disk := Some (Document d), config := d\<rparr>, [])"
    by (simp add: l save_config_def)
  have 5: "\<forall>msg. open_write w d = OpenFails msg \<longrightarrow>
            snd (load_config w s) = (s, [Print (''Error saving config: '' @ msg)])"
    by (simp add: l save_config_def)
  show ?thesis by (intro conjI 1 2 3 4 5)
qed

theorem load_config_creates_defaults_witness:
  "exists_error calm_world = None
   \<and> disk \<lparr>config = JNull, disk = None, stdin = []\<rparr> = None
   \<and> get_default_config calm_world = Inr calm_defaults
   \<and> fst (load_config calm_world \<lparr>config = JNull, disk = None, stdin = []\<rparr>) = Inr calm_defaults
   \<and> env_HOME calm_world = Some (concat (map ((#) CHR ''/'') [''home'', ''user'']))
   \<and> subscript calm_defaults ''download_path'' = Inr (JStr ''/home/user/Downloads'')
   \<and> open_write calm_world calm_defaults = WriteOk
   \<and> snd (load_config calm_world \<lparr>config = JNull, disk = None, stdin = []\<rparr>)
       = (\<lparr>config = calm_defaults, disk = Some (Document calm_defaults), stdin = []\<rparr>, [])
   \<and> exists_error denied_world = None
   \<and> get_default_config denied_world = Inr calm_defaults
   \<and> open_write denied_world calm_defaults = OpenFails ''[Errno 13] Permission denied''
   \<and> snd (load_config denied_world \<lparr>config = JNull, disk = None, stdin = []\<rparr>)
       = (\<lparr>config = JNull, disk = None, stdin = []\<rparr>,
          [Print ''Error saving config: [Errno 13] Permission denied''])"
proof -
  let ?s = "\<lparr>config = JNull, disk = None, stdin = []\<rparr>"
  have h: "disk ?s = None" by simp
  have x: "exists_error calm_world = None" by (simp add: calm_world_def)
  have y: "exists_error denied_world = None" by (simp add: denied_world_def calm_world_def)
  have ok: "open_write calm_world calm_defaults = WriteOk" by (simp add: calm_world_def)
  have no: "open_write denied_world calm_defaults = OpenFails ''[Errno 13] Permission denied''"
    by (simp add: denied_world_def)
  have e: "env_HOME calm_world = Some (concat (map ((#) CHR ''/'') [''home'', ''user'']))"
    by (simp add: calm_world_def)
  have c: "[''home'', ''user''] \<noteq> []
           \<and> (\<forall>c \<in> set [''home'', ''user'']. c \<noteq> [] \<and> c \<noteq> ''.'' \<and> CHR ''/'' \<notin> set c)"
    by simp
  note t = load_config_creates_defaults [OF x h calm_defaults]
  note u = load_config_creates_defaults [OF y h denied_defaults]
  note t3 = t [THEN conjunct2, THEN conjunct2, THEN conjunct1, rule_format, OF conjI [OF e c]]
  from t3 have t3': "subscript calm_defaults ''download_path'' = Inr (JStr ''/home/user/Downloads'')"
    by simp
  note t4 = t [THEN conjunct2, THEN conjunct2, THEN conjunct2, THEN conjunct1, rule_format, OF ok]
  from t4 have t4': "snd (load_config calm_world ?s)
       = (\<lparr>config = calm_defaults, disk = Some (Document calm_defaults), stdin = []\<rparr>, [])"
    by simp
  note u5 = u [THEN conjunct2, THEN conjunct2, THEN conjunct2, THEN conjunct2, rule_format, OF no]
  from u5 have u5': "snd (load_config denied_world ?s)
       = (?s, [Print ''Error saving config: [Errno 13] Permission denied''])"
    by simp
  show ?thesis
    by (intro conjI x h calm_defaults t [THEN conjunct1] e t3' ok t4' y denied_defaults no u5')
qed

text \<open>
  C7. The claim is that \<open>load_config\<close>, when the settings file exists but cannot be
  parsed, returns the default settings, does not raise and leaves the file as it is. The
  \<open>except\<close> clause names JSONDecodeError and IOError. Evaluated on a settings file whose
  bytes are not text (the single byte \<open>0xFF\<close> under UTF-8), reading raises
  UnicodeDecodeError, which the clause does not catch: the exception leaves
  \<open>load_config\<close> and the constructor of the ConfigManager. The same happens with
  ValueError on a file that holds an integer of 5001 digits.
\<close>

theorem load_config_raises_on_undecodable_file:
  "load_config calm_world \<lparr>config = JNull, disk = Some NotText, stdin = []\<rparr>
     = (Inl UnicodeDecodeError, \<lparr>config = JNull, disk = Some NotText, stdin = []\<rparr>, [])
   \<and> ConfigManager calm_world (Some NotText) []
     = (Inl UnicodeDecodeError, \<lparr>config = JNull, disk = Some NotText, stdin = []\<rparr>, [])
   \<and> load_config calm_world \<lparr>config = JNull, disk = Some HugeInteger, stdin = []\<rparr>
     = (Inl ValueError, \<lparr>config = JNull, disk = Some HugeInteger, stdin = []\<rparr>, [])"
  by (simp add: ConfigManager_def load_config_def calm_world_def)

text \<open>
  C8. The claim is that after \<open>update_setting key value\<close> the new value is visible in
  memory and in the settings file, all other keys unchanged in both. \<open>save_config\<close>
  catches the IOError of a failed write, so on a machine where the file cannot be written
  the new value is in memory and the file still holds the old one.
\<close>

theorem update_setting_not_persisted_counterexample:
  "config default_state = calm_defaults
   \<and> disk default_state = Some (Document (calm_defaults))
   \<and> fst (update_setting denied_world ''audio_quality'' (JStr ''320'') default_state) = Inr ()
   \<and> subscript (config (fst (snd (update_setting denied_world ''audio_quality'' (JStr ''320'')
          default_state)))) ''audio_quality'' = Inr (JStr ''320'')
   \<and> disk (fst (snd (update_setting denied_world ''audio_quality'' (JStr ''320'') default_state)))
       = Some (Document (calm_defaults))
   \<and> subscript (calm_defaults) ''audio_quality'' = Inr (JStr ''192'')"
  by (simp add: default_state_def calm_defaults_def update_setting_def save_config_def
      denied_world_def)

text \<open>
  C8, amended. For every key and value, after \<open>update_setting key value\<close> on settings
  that are a mapping, the new value is visible in memory and all other keys are unchanged
  there; when the write succeeds the settings file holds exactly the settings in memory
  (the new value, and every other key as in memory), and when the file cannot be opened
  for writing the file is unchanged.
\<close>

theorem update_setting_visible:
  assumes "config s = JObj kvs"
  shows "fst (update_setting w k v s) = Inr ()
       \<and> subscript (config (fst (snd (update_setting w k v s)))) k = Inr v
       \<and> (\<forall>k'. k' \<noteq> k \<longrightarrow>
            subscript (config (fst (snd (update_setting w k v s)))) k' = subscript (config s) k')
       \<and> (open_write w (config (fst (snd (update_setting w k v s)))) = WriteOk \<longrightarrow>
            disk (fst (snd (update_setting w k v s)))
              = Some (Document (config (fst (snd (update_setting w k v s))))))
       \<and> (\<forall>msg. open_write w (config (fst (snd (update_setting w k v s)))) = OpenFails msg \<longrightarrow>
            disk (fst (snd (update_setting w k v s))) = disk s)"
proof -
  let ?c = "JObj (AList.update k v kvs)"
  let ?s = "s\<lparr>config := ?c\<rparr>"
  have u: "update_setting w k v s = (Inr (), fst (save_config w None ?s), snd (save_config w None ?s))"
    using assms by (simp add: update_setting_def split: prod.splits)
  have c: "config (fst (snd (update_setting w k v s))) = ?c"
    by (simp add: u save_config_config)
  have d: "disk (fst (snd (update_setting w k v s))) =
             (case open_write w ?c of WriteOk \<Rightarrow> Some (Document ?c) | OpenFails msg \<Rightarrow> disk s
              | DumpFails left msg \<Rightarrow> Some left)"
    by (simp add: u save_config_disk split: write_result.splits)
  have 1: "fst (update_setting w k v s) = Inr ()" by (simp add: u)
  have 2: "subscript (config (fst (snd (update_setting w k v s)))) k = Inr v"
    by (simp add: c update_conv')
  have 3: "\<forall>k'. k' \<noteq> k \<longrightarrow>
            subscript (config (fst (snd (update_setting w k v s)))) k' = subscript (config s) k'"
    by (simp add: c assms update_conv')
  have 4: "open_write w (config (fst (snd (update_setting w k v s)))) = WriteOk \<longrightarrow>
            disk (fst (snd (update_setting w k v s)))
              = Some (Document (config (fst (snd (update_setting w k v s)))))"
    by (simp add: c d)
  have 5: "\<forall>msg. open_write w (config (fst (snd (update_setting w k v s)))) = OpenFails msg \<longrightarrow>
            disk (fst (snd (update_setting w k v s))) = disk s"
    by (simp add: c d)
  show ?thesis by (intro conjI 1 2 3 4 5)
qed

theorem update_setting_visible_witness:
  "config default_state = calm_defaults
   \<and> fst (update_setting calm_world ''audio_quality'' (JStr ''320'') default_state) = Inr ()
   \<and> subscript (config (fst (snd (update_setting calm_world ''audio_quality'' (JStr ''320'')
          default_state)))) ''audio_quality'' = Inr (JStr ''320'')
   \<and> ''keep_video'' \<noteq> ''audio_quality''
   \<and> subscript (config (fst (snd (update_setting calm_world ''audio_quality'' (JStr ''320'')
          default_state)))) ''keep_video'' = subscript (config default_state) ''keep_video''
   \<and> open_write calm_world (config (fst (snd (update_setting calm_world ''audio_quality''
          (JStr ''320'') default_state)))) = WriteOk
   \<and> disk (fst (snd (update_setting calm_world ''audio_quality'' (JStr ''320'') default_state)))
       = Some (Document (config (fst (snd (update_setting calm_world ''audio_quality''
          (JStr ''320'') default_state)))))"
proof -
  have h0: "config default_state = calm_defaults"
    by (simp add: default_state_def)
  have h: "config default_state =
             JObj [(''download_path'', JStr ''/home/user/Downloads''),
                   (''audio_quality'', JStr ''192''),
                   (''filename_format'', JStr ''%(title)s.%(ext)s''),
                   (''keep_video'', JBool False)]"
    by (simp add: default_state_def calm_defaults_def)
  have n: "''keep_video'' \<noteq> ''audio_quality''" by simp
  have ok: "open_write calm_world (config (fst (snd (update_setting calm_world ''audio_quality''
          (JStr ''320'') default_state)))) = WriteOk"
    by (simp add: calm_world_def)
  note t = update_setting_visible [OF h, of calm_world "''audio_quality''" "JStr ''320''"]
  note t3 = t [THEN conjunct2, THEN conjunct2, THEN conjunct1, rule_format, OF n]
  note t4 = t [THEN conjunct2, THEN conjunct2, THEN conjunct2, THEN conjunct1, rule_format, OF ok]
  show ?thesis
    by (intro conjI h0 n ok t [THEN conjunct1] t [THEN conjunct2, THEN conjunct1] t3 t4)
qed




text \<open>
  C10. The claim is that whenever \<open>--link\<close> comes with a configuration flag, \<open>run\<close>
  performs the configuration action and returns without invoking \<open>download\<close>. With
  \<open>--link\<close> and \<open>--set-download-path=/new\<close>, where \<open>/new\<close> is not a directory and the user
  answers \<open>n\<close> at the prompt, \<open>run\<close> returns with the settings unchanged in memory and on
  disk: no configuration action is performed (and nothing is downloaded).
\<close>

theorem run_declined_path_counterexample:
  "link link_and_path_args = Some ''https://youtu.be/abc''
   \<and> set_download_path link_and_path_args = Some ''/new''
   \<and> run calm_world link_and_path_args (default_state\<lparr>stdin := [''n'']\<rparr>)
       = (Inr (), default_state\<lparr>stdin := []\<rparr>, [Input (create_prompt ''/new'')])"
  by (simp add: run_def handle_config_commands_def set_path_block_def confirm_directory_def
      py_input_def expanduser_def os_path_isdir_def calm_world_def link_and_path_args_def
      default_state_def keep_block_def lower_def lower_char_def)

text \<open>
  C10, amended. Whenever \<open>--link\<close> is supplied together with a configuration flag
  (\<open>--show-config\<close>, \<open>--set-download-path\<close>, \<open>--keep-video\<close> or \<open>--no-keep-video\<close>), \<open>run\<close>
  does what \<open>handle_config_commands\<close> does and nothing more: it never invokes \<open>download\<close>
  and makes no call to the external library, and it returns unless the configuration
  handling itself raises. The configuration action is performed under the conditions of
  the code: \<open>--show-config\<close> prints the settings and changes nothing; without it,
  \<open>--keep-video\<close> and \<open>--no-keep-video\<close> set \<open>keep_video\<close> (\<open>--no-keep-video\<close> wins), and
  \<open>--set-download-path\<close> stores the path only when it is not empty, the directory exists
  or the user agrees to create it, and \<open>os.makedirs\<close> succeeds.
\<close>

theorem run_config_flag_no_download:
  assumes "link a = Some url"
    and "show_config_flag a \<or> set_download_path a \<noteq> None \<or> keep_video a \<or> no_keep_video a"
  shows "run w a s =
           (case handle_config_commands w a s of
              (Inl e, s', ev) \<Rightarrow> (Inl e, s', ev)
            | (Inr b, s', ev) \<Rightarrow> (Inr (), s', ev))
       \<and> external_calls (snd (snd (run w a s))) = []
       \<and> (show_config_flag a \<longrightarrow>
            fst (snd (run w a s)) = s \<and> snd (snd (run w a s)) = snd (show_config (config s)))
       \<and> (\<not> show_config_flag a \<and> fst (run w a s) = Inr () \<and> (keep_video a \<or> no_keep_video a) \<longrightarrow>
            subscript (config (fst (snd (run w a s)))) ''keep_video'' =
              Inr (JBool (\<not> no_keep_video a)))
       \<and> (\<forall>p. \<not> show_config_flag a \<and> fst (run w a s) = Inr () \<and> set_download_path a = Some p \<longrightarrow>
            subscript (config (fst (snd (run w a s)))) ''download_path'' =
              (if p \<noteq> [] \<and> (\<exists>path. expanduser w p = Inr path
                      \<and> (os_path_isdir w path \<or> agrees (stdin s))
                      \<and> os_makedirs w path True = None)
               then Inr (JStr p) else subscript (config s) ''download_path''))"
proof -
  obtain x s' ev where h: "handle_config_commands w a s = (x, s', ev)"
    by (cases "handle_config_commands w a s")
  have t: "b" if "x = Inr b" for b
  proof (cases "show_config_flag a")
    case True
    from handle_config_commands_show(3) [OF True, of w s b] h that show ?thesis by simp
  next
    case False
    from handle_config_commands_blocks(2) [OF False, of w s b] h that assms(2) False
    show ?thesis by auto
  qed
  have r: "run w a s = (case x of Inl e \<Rightarrow> (Inl e, s', ev) | Inr b \<Rightarrow> (Inr (), s', ev))"
    using h t by (cases x) (auto simp: run_def)
  have 1: "run w a s =
           (case handle_config_commands w a s of
              (Inl e, s', ev) \<Rightarrow> (Inl e, s', ev)
            | (Inr b, s', ev) \<Rightarrow> (Inr (), s', ev))"
    using r h by (cases x) simp_all
  have st: "fst (snd (run w a s)) = fst (snd (handle_config_commands w a s))"
    and evs: "snd (snd (run w a s)) = snd (snd (handle_config_commands w a s))"
    and res: "fst (run w a s) = Inr () \<Longrightarrow> fst (handle_config_commands w a s) = Inr True"
    using r h t by (cases x; auto)+
  have 2: "external_calls (snd (snd (run w a s))) = []"
  proof (cases "show_config_flag a")
    case True
    then show ?thesis by (simp add: evs handle_config_commands_show(2) show_config_external)
  next
    case False
    then show ?thesis by (simp add: evs handle_config_commands_blocks(1))
  qed
  have 3: "show_config_flag a \<longrightarrow>
            fst (snd (run w a s)) = s \<and> snd (snd (run w a s)) = snd (show_config (config s))"
    by (simp add: st evs handle_config_commands_show)
  have 4: "\<not> show_config_flag a \<and> fst (run w a s) = Inr () \<and> (keep_video a \<or> no_keep_video a) \<longrightarrow>
            subscript (config (fst (snd (run w a s)))) ''keep_video'' =
              Inr (JBool (\<not> no_keep_video a))"
    using handle_config_commands_blocks(3) [of a w s True] res by (auto simp: st)
  have 5: "\<forall>p. \<not> show_config_flag a \<and> fst (run w a s) = Inr () \<and> set_download_path a = Some p \<longrightarrow>
            subscript (config (fst (snd (run w a s)))) ''download_path'' =
              (if p \<noteq> [] \<and> (\<exists>path. expanduser w p = Inr path
                      \<and> (os_path_isdir w path \<or> agrees (stdin s))
                      \<and> os_makedirs w path True = None)
               then Inr (JStr p) else subscript (config s) ''download_path'')"
  proof (intro allI impI, elim conjE)
    fix p
    assume "\<not> show_config_flag a" "fst (run w a s) = Inr ()" "set_download_path a = Some p"
    from handle_config_commands_blocks(4) [OF this(1) res [OF this(2)] this(3)]
    show "subscript (config (fst (snd (run w a s)))) ''download_path'' =
              (if p \<noteq> [] \<and> (\<exists>path. expanduser w p = Inr path
                      \<and> (os_path_isdir w path \<or> agrees (stdin s))
                      \<and> os_makedirs w path True = None)
               then Inr (JStr p) else subscript (config s) ''download_path'')"
      by (simp add: st)
  qed
  show ?thesis by (intro conjI 1 2 3 4 5)
qed

theorem run_config_flag_no_download_witness:
  "link link_and_keep_args = Some ''https://youtu.be/abc''
   \<and> keep_video link_and_keep_args
   \<and> \<not> show_config_flag link_and_keep_args
   \<and> fst (run calm_world link_and_keep_args default_state) = Inr ()
   \<and> external_calls (snd (snd (run calm_world link_and_keep_args default_state))) = []
   \<and> subscript (config (fst (snd (run calm_world link_and_keep_args default_state))))
         ''keep_video'' = Inr (JBool True)
   \<and> link link_and_path_args = Some ''https://youtu.be/abc''
   \<and> set_download_path link_and_path_args = Some ''/new''
   \<and> \<not> show_config_flag link_and_path_args
   \<and> fst (run calm_world link_and_path_args (default_state\<lparr>stdin := [''yes'']\<rparr>)) = Inr ()
   \<and> external_calls
         (snd (snd (run calm_world link_and_path_args (default_state\<lparr>stdin := [''yes'']\<rparr>)))) = []
   \<and> subscript
         (config (fst (snd (run calm_world link_and_path_args (default_state\<lparr>stdin := [''yes'']\<rparr>)))))
         ''download_path'' = Inr (JStr ''/new'')"
proof -
  have k1: "link link_and_keep_args = Some ''https://youtu.be/abc''"
    and k2: "keep_video link_and_keep_args"
    and k3: "\<not> show_config_flag link_and_keep_args"
    and k4: "\<not> no_keep_video link_and_keep_args"
    by (simp_all add: link_and_keep_args_def)
  have k5: "fst (run calm_world link_and_keep_args default_state) = Inr ()"
    by (simp add: run_def handle_config_commands_def keep_block_def update_setting_def
        save_config_def calm_world_def link_and_keep_args_def default_state_def
        calm_defaults_def Let_def)
  note t = run_config_flag_no_download [OF k1 disjI2 [OF disjI2 [OF disjI1 [OF k2]]],
      of calm_world default_state]
  note t2 = t [THEN conjunct2, THEN conjunct1]
  note t4 = t [THEN conjunct2, THEN conjunct2, THEN conjunct2, THEN conjunct1, rule_format,
      OF conjI [OF k3 conjI [OF k5 disjI1 [OF k2]]]]
  from t4 k4 have t4': "subscript (config (fst (snd (run calm_world link_and_keep_args
      default_state)))) ''keep_video'' = Inr (JBool True)" by simp
  have p1: "link link_and_path_args = Some ''https://youtu.be/abc''"
    and p2: "set_download_path link_and_path_args = Some ''/new''"
    and p3: "\<not> show_config_flag link_and_path_args"
    by (simp_all add: link_and_path_args_def)
  have p2': "set_download_path link_and_path_args \<noteq> None" using p2 by simp
  have p5: "fst (run calm_world link_and_path_args (default_state\<lparr>stdin := [''yes'']\<rparr>)) = Inr ()"
    by (simp add: run_def handle_config_commands_def set_path_block_def confirm_directory_def
        py_input_def expanduser_def os_path_isdir_def os_makedirs_def keep_block_def
        update_setting_def save_config_def calm_world_def link_and_path_args_def
        default_state_def calm_defaults_def lower_def lower_char_def Let_def)
  have c: "''/new'' \<noteq> [] \<and>
           (\<exists>path. expanduser calm_world ''/new'' = Inr path
              \<and> (os_path_isdir calm_world path
                  \<or> agrees (stdin (default_state\<lparr>stdin := [''yes'']\<rparr>)))
              \<and> os_makedirs calm_world path True = None)"
    by (simp add: expanduser_def os_makedirs_def calm_world_def lower_def lower_char_def)
  note u = run_config_flag_no_download [OF p1 disjI2 [OF disjI1 [OF p2']],
      of calm_world "default_state\<lparr>stdin := [''yes'']\<rparr>"]
  note u2 = u [THEN conjunct2, THEN conjunct1]
  note u5 = u [THEN conjunct2, THEN conjunct2, THEN conjunct2, THEN conjunct2, rule_format,
      OF conjI [OF p3 conjI [OF p5 p2]]]
  from u5 c have u5': "subscript
         (config (fst (snd (run calm_world link_and_path_args (default_state\<lparr>stdin := [''yes'']\<rparr>)))))
         ''download_path'' = Inr (JStr ''/new'')"
    by simp
  show ?thesis by (intro conjI k1 k2 k3 k5 t2 t4' p1 p2 p3 p5 u2 u5')
qed

end
